theory Spec2Isabelle
  imports Complex_Main
begin

section \<open>Solar-driven multi-effect desalination: the model of med\_solar\_simulation.py\<close>

text \<open>
  The Python program computes with IEEE double-precision floats (Python \<^verbatim>\<open>float\<close> and
  numpy \<^verbatim>\<open>float64\<close>). Here every float is an exact \<^typ>\<open>real\<close>: rounding, overflow and
  the values \<^verbatim>\<open>inf\<close> and \<^verbatim>\<open>nan\<close> are not represented. Where the program divides,
  the model says what happens when the divisor is zero: a Python float division raises
  \<^verbatim>\<open>ZeroDivisionError\<close>, a numpy division gives \<^verbatim>\<open>inf\<close> or \<^verbatim>\<open>nan\<close> with a warning
  (the model then stops with \<open>NonFinite\<close>, since no real number stands for the result).
\<close>

subsection \<open>Parameters\<close>

text \<open>The dataclass \<^verbatim>\<open>MEDParameters\<close>.\<close>

record MEDParameters =
  n_effects :: int
  T_steam :: real
  T_feed :: real
  T_cw :: real
  M_feed :: real
  S_feed :: real
  BPE :: real
  TTD_preheater :: real
  feed_config :: string
  solar_collector_area :: real
  storage_capacity_kWh :: real
  solar_efficiency :: real

text \<open>The default values of the dataclass fields.\<close>

definition default_parameters :: MEDParameters where
  "default_parameters =
     \<lparr> n_effects = 8, T_steam = 70, T_feed = 25, T_cw = 20, M_feed = 30,
       S_feed = 42000, BPE = 8 / 10, TTD_preheater = 15 / 10,
       feed_config = ''forward'', solar_collector_area = 10000,
       storage_capacity_kWh = 50000, solar_efficiency = 7 / 10 \<rparr>"

datatype error = ValueError | IndexError | ZeroDivisionError | NonFinite

subsection \<open>Property functions\<close>

text \<open>\<^verbatim>\<open>MEDModel._latent_heat\<close>: \<^verbatim>\<open>2.501e6 - 2.369e3*T + 1.676*T**2 - 1.517e-2*T**3\<close>.\<close>

definition latent_heat :: "real \<Rightarrow> real" where
  "latent_heat T = 2501000 - 2369 * T + (1676 / 1000) * T ^ 2 - (1517 / 100000) * T ^ 3"

text \<open>\<^verbatim>\<open>MEDModel._specific_heat_capacity\<close>.\<close>

definition specific_heat_capacity :: "real \<Rightarrow> real \<Rightarrow> real" where
  "specific_heat_capacity T S =
     (let S_ratio = S / 1000
      in 4187 - (755 / 100) * T + (46 / 1000) * T ^ 2 + S_ratio * (- (546 / 10) + (38 / 100) * T))"

text \<open>\<^verbatim>\<open>MEDModel._heat_transfer_coefficient_evaporator\<close>.\<close>

definition heat_transfer_coefficient_evaporator :: "real \<Rightarrow> real" where
  "heat_transfer_coefficient_evaporator T = 2000 + 40 * T"

subsection \<open>The steady-state solver\<close>

text \<open>
  The object \<^verbatim>\<open>MEDModel\<close> with its arrays, one entry per effect. The attribute
  \<^verbatim>\<open>self.M_feed\<close> is \<open>M_feed_arr\<close> here (the parameter record has a field \<open>M_feed\<close>
  already). The last three fields are the local arrays of \<^verbatim>\<open>solve\<close>: \<^verbatim>\<open>S_feed\<close>
  (here \<open>S_feed_arr\<close>), \<^verbatim>\<open>T_feed_in\<close> and \<^verbatim>\<open>M_vapor_preheat\<close>, which the loops of
  \<^verbatim>\<open>solve\<close> read and write together with the attributes.
\<close>

record MEDModel =
  params :: MEDParameters
  n :: int
  T_effect :: "real list"
  M_feed_arr :: "real list"
  M_brine :: "real list"
  M_vapor :: "real list"
  S_brine :: "real list"
  A_effect :: "real list"
  M_total_distillate :: real
  M_steam :: real
  GOR :: real
  As :: real
  S_feed_arr :: "real list"
  T_feed_in :: "real list"
  M_vapor_preheat :: "real list"

text \<open>\<^verbatim>\<open>np.zeros(k)\<close>; numpy raises \<^verbatim>\<open>ValueError\<close> for a negative dimension.\<close>

definition np_zeros :: "int \<Rightarrow> error + real list" where
  "np_zeros k = (if k < 0 then Inl ValueError else Inr (replicate (nat k) 0))"

text \<open>\<^verbatim>\<open>MEDModel.__init__\<close>. The local arrays do not exist yet and are empty.\<close>

definition MEDModel_init :: "MEDParameters \<Rightarrow> error + MEDModel" where
  "MEDModel_init p =
     (case np_zeros (n_effects p) of
        Inl e \<Rightarrow> Inl e
      | Inr z \<Rightarrow>
          Inr \<lparr> params = p, n = n_effects p, T_effect = z, M_feed_arr = z, M_brine = z,
                M_vapor = z, S_brine = z, A_effect = z, M_total_distillate = 0, M_steam = 0,
                GOR = 0, As = 0, S_feed_arr = [], T_feed_in = [], M_vapor_preheat = [] \<rparr>)"

text \<open>\<^verbatim>\<open>_distribute_feed_water\<close>: index 0 of an empty array raises \<^verbatim>\<open>IndexError\<close>.\<close>

definition distribute_feed_water :: "MEDModel \<Rightarrow> error + MEDModel" where
  "distribute_feed_water m =
     (if M_feed_arr m = [] then Inl IndexError
      else Inr (m\<lparr>M_feed_arr := (M_feed_arr m)[0 := M_feed (params m)]\<rparr>))"

text \<open>The loop that fills \<^verbatim>\<open>T_effect\<close>, over the indices of \<^verbatim>\<open>range(self.n)\<close>.\<close>

fun temperature_loop :: "nat list \<Rightarrow> real \<Rightarrow> MEDModel \<Rightarrow> MEDModel" where
  "temperature_loop [] delta_T_total m = m"
| "temperature_loop (i # rest) delta_T_total m =
     temperature_loop rest delta_T_total
       (m\<lparr>T_effect := (T_effect m)[i :=
            T_steam (params m) - (real i + 1) * delta_T_total - BPE (params m)]\<rparr>)"

text \<open>
  One round of the backward preheating loop, for effect \<open>i\<close>. The division by the latent
  heat is a numpy division.
\<close>

definition preheat_step :: "nat \<Rightarrow> real \<Rightarrow> MEDModel \<Rightarrow> error + MEDModel" where
  "preheat_step i mass_flow_feed m =
     (let TTD = TTD_preheater (params m);
          target_temp = T_effect m ! i - TTD
      in if target_temp > T_feed_in m ! 0 then
           (let T_avg_preheat = (target_temp + T_feed_in m ! 0) / 2;
                Cp = specific_heat_capacity T_avg_preheat (S_feed (params m));
                Q_preheat = mass_flow_feed * Cp * (target_temp - T_feed_in m ! 0);
                lambda_v = latent_heat (T_effect m ! (i - 1))
            in if lambda_v = 0 then Inl NonFinite
               else Inr (m\<lparr>M_vapor_preheat := (M_vapor_preheat m)[i - 1 := Q_preheat / lambda_v],
                           T_feed_in := (T_feed_in m)[0 := target_temp]\<rparr>))
         else Inr m)"

fun preheat_loop :: "nat list \<Rightarrow> real \<Rightarrow> MEDModel \<Rightarrow> error + MEDModel" where
  "preheat_loop [] mass_flow_feed m = Inr m"
| "preheat_loop (i # rest) mass_flow_feed m =
     (case preheat_step i mass_flow_feed m of
        Inl e \<Rightarrow> Inl e
      | Inr m' \<Rightarrow> preheat_loop rest mass_flow_feed m')"

text \<open>
  The forward pass, effect \<open>i\<close>, in the five numbered parts of the loop body.
  Part 1, the heat input \<^verbatim>\<open>Q_input\<close>, and the feed temperature of effect \<open>i > 0\<close>.
\<close>

definition heat_input :: "nat \<Rightarrow> MEDModel \<Rightarrow> real" where
  "heat_input i m =
     (if i = 0 then
        (let lambda_s = latent_heat (T_steam (params m)) in M_steam m * lambda_s)
      else
        (let lambda_v_prev = latent_heat (T_effect m ! (i - 1));
             M_vapor_heating = M_vapor m ! (i - 1);
             M_vapor_available = M_vapor_heating - M_vapor_preheat m ! (i - 1);
             M_vapor_available = max 0 M_vapor_available
         in M_vapor_available * lambda_v_prev))"

definition update_feed_temperature :: "nat \<Rightarrow> MEDModel \<Rightarrow> MEDModel" where
  "update_feed_temperature i m =
     (if i > 0 then m\<lparr>T_feed_in := (T_feed_in m)[i := T_effect m ! (i - 1)]\<rparr> else m)"

text \<open>Part 2, the evaporation. The division by the latent heat is a numpy division.\<close>

definition sensible_heat :: "nat \<Rightarrow> MEDModel \<Rightarrow> real" where
  "sensible_heat i m =
     (let Cp = specific_heat_capacity (T_feed_in m ! i) (S_feed_arr m ! i)
      in max 0 (M_feed_arr m ! i * Cp * (T_effect m ! i - T_feed_in m ! i)))"

definition evaporation :: "nat \<Rightarrow> real \<Rightarrow> MEDModel \<Rightarrow> error + MEDModel" where
  "evaporation i Q_input m =
     (let lambda_v = latent_heat (T_effect m ! i);
          sensible = sensible_heat i m
      in if lambda_v = 0 then Inl NonFinite
         else (let M_evap = max 0 ((Q_input - sensible) / lambda_v)
               in Inr (m\<lparr>M_vapor := (M_vapor m)[i := M_evap]\<rparr>)))"

text \<open>Part 3, the mass and salt balances.\<close>

definition mass_and_salt_balances :: "nat \<Rightarrow> MEDModel \<Rightarrow> MEDModel" where
  "mass_and_salt_balances i m0 =
     (let m = m0\<lparr>M_brine := (M_brine m0)[i := M_feed_arr m0 ! i - M_vapor m0 ! i]\<rparr>
      in if M_brine m ! i > 1 / 1000000
         then m\<lparr>S_brine := (S_brine m)[i := M_feed_arr m ! i * S_feed_arr m ! i / M_brine m ! i]\<rparr>
         else m\<lparr>S_brine := (S_brine m)[i := S_feed_arr m ! i]\<rparr>)"

text \<open>
  Part 4, the area. \<^verbatim>\<open>h_e * delta_T_drive\<close> is a numpy float, so the division is a
  numpy division.
\<close>

definition delta_T_drive :: "nat \<Rightarrow> MEDModel \<Rightarrow> real" where
  "delta_T_drive i m =
     (if i = 0 then T_steam (params m) - T_effect m ! i - BPE (params m)
      else T_effect m ! (i - 1) - T_effect m ! i - BPE (params m))"

definition area_calculation :: "nat \<Rightarrow> real \<Rightarrow> MEDModel \<Rightarrow> error + MEDModel" where
  "area_calculation i Q_input m =
     (let h_e = heat_transfer_coefficient_evaporator (T_effect m ! i);
          dT = delta_T_drive i m
      in if dT > 0 then
           (if h_e * dT = 0 then Inl NonFinite
            else Inr (m\<lparr>A_effect := (A_effect m)[i := Q_input / (h_e * dT)]\<rparr>))
         else Inr (m\<lparr>A_effect := (A_effect m)[i := 0]\<rparr>))"

text \<open>Part 5, the brine of effect \<open>i\<close> is the feed of effect \<open>i + 1\<close>.\<close>

definition forward_feed_propagation :: "nat \<Rightarrow> MEDModel \<Rightarrow> MEDModel" where
  "forward_feed_propagation i m =
     (if int i < n m - 1
      then m\<lparr>M_feed_arr := (M_feed_arr m)[i + 1 := M_brine m ! i],
             S_feed_arr := (S_feed_arr m)[i + 1 := S_brine m ! i]\<rparr>
      else m)"

text \<open>The body of the forward loop.\<close>

definition forward_step :: "nat \<Rightarrow> MEDModel \<Rightarrow> error + MEDModel" where
  "forward_step i m0 =
     (let Q_input = heat_input i m0;
          m1 = update_feed_temperature i m0
      in case evaporation i Q_input m1 of
           Inl e \<Rightarrow> Inl e
         | Inr m2 \<Rightarrow>
            (case area_calculation i Q_input (mass_and_salt_balances i m2) of
               Inl e \<Rightarrow> Inl e
             | Inr m4 \<Rightarrow> Inr (forward_feed_propagation i m4)))"

fun forward_loop :: "nat list \<Rightarrow> MEDModel \<Rightarrow> error + MEDModel" where
  "forward_loop [] m = Inr m"
| "forward_loop (i # rest) m =
     (case forward_step i m of
        Inl e \<Rightarrow> Inl e
      | Inr m' \<Rightarrow> forward_loop rest m')"

text \<open>
  The dictionary \<^verbatim>\<open>results\<close>. \<^verbatim>\<open>WRR\<close> is the quotient of a numpy float by
  \<^verbatim>\<open>params.M_feed\<close>: for a zero feed flow it is \<^verbatim>\<open>nan\<close> or \<^verbatim>\<open>inf\<close>, here \<open>None\<close>
  (nothing is computed from it afterwards, so the other entries stay available).
\<close>

record Results =
  r_GOR :: real
  r_As :: real
  r_M_total_distillate :: real
  r_M_steam :: real
  r_Q_nominal_W :: real
  r_A_total :: real
  r_WRR :: "real option"
  r_S_brine_final :: real
  r_T_top :: real

text \<open>The final metrics, written to the object.\<close>

definition final_metrics :: "MEDModel \<Rightarrow> MEDModel" where
  "final_metrics m0 =
     (let m1 = m0\<lparr>M_total_distillate := sum_list (M_vapor m0)\<rparr>;
          m2 = (if M_steam m1 > 0 then m1\<lparr>GOR := M_total_distillate m1 / M_steam m1\<rparr>
                else m1\<lparr>GOR := 0\<rparr>);
          total_area = sum_list (A_effect m2)
      in if M_total_distillate m2 > 0 then m2\<lparr>As := total_area / M_total_distillate m2\<rparr>
         else m2\<lparr>As := 0\<rparr>)"

definition results_of :: "MEDModel \<Rightarrow> Results" where
  "results_of m =
     \<lparr> r_GOR = GOR m, r_As = As m, r_M_total_distillate = M_total_distillate m,
       r_M_steam = M_steam m,
       r_Q_nominal_W = M_steam m * latent_heat (T_steam (params m)),
       r_A_total = sum_list (A_effect m),
       r_WRR = (if M_feed (params m) = 0 then None
                else Some (M_total_distillate m / M_feed (params m) * 100)),
       r_S_brine_final = last (S_brine m),
       r_T_top = T_effect m ! 0 \<rparr>"

text \<open>
  \<^verbatim>\<open>MEDModel.solve\<close>, on the object as the constructor leaves it. The result is the
  object after the call (the claims are about its arrays); \<open>results_of\<close> gives the
  dictionary that \<^verbatim>\<open>solve\<close> returns.
\<close>

definition solve_model :: "MEDModel \<Rightarrow> error + MEDModel" where
  "solve_model m0 =
     (case distribute_feed_water m0 of
        Inl e \<Rightarrow> Inl e
      | Inr m1 \<Rightarrow>
         (case np_zeros (n m1) of
            Inl e \<Rightarrow> Inl e
          | Inr z \<Rightarrow>
             (let m2 = m1\<lparr>S_feed_arr := replicate (nat (n m1)) (S_feed (params m1)),
                          T_feed_in := z\<rparr>;
                  total_T_drop = T_steam (params m2) - T_cw (params m2)
              in if n m2 + 1 = 0 then Inl ZeroDivisionError
                 else
                   (let delta_T_total =
                          (total_T_drop - real_of_int (n m2) * BPE (params m2)) / real_of_int (n m2 + 1);
                        m3 = temperature_loop [0..<nat (n m2)] delta_T_total m2;
                        mass_flow_feed = M_feed_arr m3 ! 0;
                        m4 = m3\<lparr>T_feed_in := (T_feed_in m3)[0 := T_feed (params m3)],
                                M_vapor_preheat := z\<rparr>
                    in case preheat_loop (rev [1..<nat (n m4)]) mass_flow_feed m4 of
                         Inl e \<Rightarrow> Inl e
                       | Inr m5 \<Rightarrow>
                          (let M_distillate_target = M_feed (params m5) * (12 / 100);
                               m6 = m5\<lparr>M_steam := M_distillate_target / (514 / 100)\<rparr>
                           in case forward_loop [0..<nat (n m6)] m6 of
                                Inl e \<Rightarrow> Inl e
                              | Inr m7 \<Rightarrow> Inr (final_metrics m7))))))"

definition solve :: "MEDParameters \<Rightarrow> error + MEDModel" where
  "solve p = (case MEDModel_init p of Inl e \<Rightarrow> Inl e | Inr m \<Rightarrow> solve_model m)"

subsection \<open>The dispatch simulator\<close>

text \<open>
  The object \<^verbatim>\<open>SolarIntegratedMEDModel\<close>. Its constructor reads \<^verbatim>\<open>Q_nominal_W\<close> and
  \<^verbatim>\<open>GOR\<close> from the dictionary of nominal results, sets
  \<^verbatim>\<open>storage_capacity_J = params.storage_capacity_kWh * 3600\<close> and then builds a
  \<^verbatim>\<open>MEDModel\<close> for the same parameters, so it raises what that constructor raises
  (\<^verbatim>\<open>ValueError\<close> for a negative number of effects).
\<close>

record SolarIntegratedMEDModel =
  sim_params :: MEDParameters
  sim_Q_nominal_W :: real
  sim_GOR :: real
  storage_capacity_J :: real
  med_model :: MEDModel

definition J_TO_KWH :: real where
  "J_TO_KWH = 3600000"

definition sim_init ::
  "MEDParameters \<Rightarrow> real \<Rightarrow> real \<Rightarrow> error + SolarIntegratedMEDModel" where
  "sim_init p Q_nominal gor =
     (case MEDModel_init p of
        Inl e \<Rightarrow> Inl e
      | Inr med \<Rightarrow>
          Inr \<lparr> sim_params = p, sim_Q_nominal_W = Q_nominal, sim_GOR = gor,
                storage_capacity_J = storage_capacity_kWh p * 3600, med_model = med \<rparr>)"

definition solar_heat_input :: "SolarIntegratedMEDModel \<Rightarrow> real \<Rightarrow> real" where
  "solar_heat_input sim irradiance =
     irradiance * solar_collector_area (sim_params sim) * solar_efficiency (sim_params sim)"

text \<open>One entry of \<^verbatim>\<open>hourly_results\<close>.\<close>

record HourlyRecord =
  hour :: int
  irradiance_W_m2 :: real
  Q_med_MW :: real
  storage_MWh :: real
  distillate_kg_s :: real
  mode :: string

text \<open>The variables the loop of \<^verbatim>\<open>simulate_daily_operation\<close> carries from hour to hour.\<close>

record sim_state =
  current_storage_J :: real
  daily_distillate_kg :: real
  daily_solar_collection_J :: real
  hourly_results :: "HourlyRecord list"

text \<open>
  The energy management logic of one hour (the \<^verbatim>\<open>if/elif/else\<close> chain): from the solar
  power and the storage level to \<^verbatim>\<open>(Q_med_W, current_storage_J, mode)\<close>.
  \<^verbatim>\<open>Q_med_W\<close> is \<open>0\<close> before the chain, and the branch "Solar + Draw" does not assign it.
\<close>

definition energy_management ::
  "SolarIntegratedMEDModel \<Rightarrow> real \<Rightarrow> real \<Rightarrow> real \<times> real \<times> string" where
  "energy_management sim Q_solar_W storage =
     (if Q_solar_W \<ge> sim_Q_nominal_W sim then
        (let Q_excess_J = (Q_solar_W - sim_Q_nominal_W sim) * 3600
         in (sim_Q_nominal_W sim, min (storage_capacity_J sim) (storage + Q_excess_J),
             ''Solar + Charge''))
      else if Q_solar_W > 0 \<and> Q_solar_W < sim_Q_nominal_W sim then
        (let Q_deficit_W = sim_Q_nominal_W sim - Q_solar_W;
             Q_draw_J = Q_deficit_W * 3600
         in if storage \<ge> Q_draw_J then (0, storage - Q_draw_J, ''Solar + Draw'')
            else (Q_solar_W + storage / 3600, 0, ''Solar + Partial Draw''))
      else if Q_solar_W = 0 \<and> storage > 0 then
        (let Q_demand_J = sim_Q_nominal_W sim * 3600
         in if storage \<ge> Q_demand_J then (sim_Q_nominal_W sim, storage - Q_demand_J, ''Storage Only'')
            else (storage / 3600, 0, ''Partial Storage''))
      else (0, storage, ''Off''))"

text \<open>
  The distillate rate of the hour. The division is a Python float division: it raises
  \<^verbatim>\<open>ZeroDivisionError\<close> when the latent heat is zero.
\<close>

definition distillate_rate :: "SolarIntegratedMEDModel \<Rightarrow> real \<Rightarrow> error + real" where
  "distillate_rate sim Q_med_W =
     (if Q_med_W > 0 \<and> sim_GOR sim > 0 then
        (let lambda_s = latent_heat (T_steam (sim_params sim))
         in if lambda_s = 0 then Inl ZeroDivisionError
            else Inr (Q_med_W / lambda_s * sim_GOR sim))
      else Inr 0)"

text \<open>The body of the loop over \<^verbatim>\<open>solar_resource\<close>.\<close>

definition dispatch_step ::
  "SolarIntegratedMEDModel \<Rightarrow> sim_state \<Rightarrow> int \<times> real \<Rightarrow> error + sim_state" where
  "dispatch_step sim st hi =
     (let h = fst hi; irradiance = snd hi;
          Q_solar_W = solar_heat_input sim irradiance;
          collected = daily_solar_collection_J st + Q_solar_W * 3600;
          (Q_med_W, storage', mode') = energy_management sim Q_solar_W (current_storage_J st)
      in case distillate_rate sim Q_med_W of
           Inl e \<Rightarrow> Inl e
         | Inr M_distillate_kg_s \<Rightarrow>
             Inr \<lparr> current_storage_J = storage',
                   daily_distillate_kg = daily_distillate_kg st + M_distillate_kg_s * 3600,
                   daily_solar_collection_J = collected,
                   hourly_results = hourly_results st @
                     [\<lparr> hour = h, irradiance_W_m2 = irradiance,
                        Q_med_MW = Q_med_W / 1000000,
                        storage_MWh = storage' / J_TO_KWH / 1000,
                        distillate_kg_s = M_distillate_kg_s, mode = mode' \<rparr>] \<rparr>)"

text \<open>The loop: the hours are processed in order, and an exception ends the run.\<close>

fun dispatch_loop ::
  "SolarIntegratedMEDModel \<Rightarrow> sim_state \<Rightarrow> (int \<times> real) list \<Rightarrow> error + sim_state" where
  "dispatch_loop sim st [] = Inr st"
| "dispatch_loop sim st (hi # rest) =
     (case dispatch_step sim st hi of
        Inl e \<Rightarrow> Inl e
      | Inr st' \<Rightarrow> dispatch_loop sim st' rest)"

text \<open>The state before the first hour: the storage is half full.\<close>

definition initial_state :: "SolarIntegratedMEDModel \<Rightarrow> sim_state" where
  "initial_state sim =
     \<lparr> current_storage_J = storage_capacity_J sim / 2, daily_distillate_kg = 0,
       daily_solar_collection_J = 0, hourly_results = [] \<rparr>"

text \<open>The dictionary \<^verbatim>\<open>final_results\<close>.\<close>

record DailyResults =
  daily_distillate :: real
  Q_nominal_W_echo :: real
  daily_solar_collection :: real
  hourly_data :: "HourlyRecord list"

definition simulate_daily_operation ::
  "SolarIntegratedMEDModel \<Rightarrow> (int \<times> real) list \<Rightarrow> error + DailyResults" where
  "simulate_daily_operation sim solar_resource =
     (case dispatch_loop sim (initial_state sim) solar_resource of
        Inl e \<Rightarrow> Inl e
      | Inr st \<Rightarrow>
          Inr \<lparr> daily_distillate = daily_distillate_kg st,
                Q_nominal_W_echo = sim_Q_nominal_W sim,
                daily_solar_collection = daily_solar_collection_J st,
                hourly_data = hourly_results st \<rparr>)"

text \<open>
  The storage level after each hour of a run, for the statements about the trajectory
  (the program keeps it only scaled, in \<^verbatim>\<open>storage_MWh\<close>): \<open>None\<close> from the hour on
  at which the run stops with an exception.
\<close>

fun storage_levels ::
  "SolarIntegratedMEDModel \<Rightarrow> sim_state \<Rightarrow> (int \<times> real) list \<Rightarrow> real option list" where
  "storage_levels sim st [] = []"
| "storage_levels sim st (hi # rest) =
     (case dispatch_step sim st hi of
        Inl e \<Rightarrow> None # map (\<lambda>_. None) rest
      | Inr st' \<Rightarrow> Some (current_storage_J st') # storage_levels sim st' rest)"

subsection \<open>Invariants of the forward pass\<close>

text \<open>
  Two predicates used in the proofs about \<^verbatim>\<open>solve\<close>. The first says that the nine
  arrays of the object have \<open>N\<close> entries. The second collects what the body of the
  forward loop has written for effect \<open>i\<close>: the vapor, the brine, the salinity and the
  area, as functions of the values in the arrays, the feed temperature taken from the
  effect before, and the brine handed on as the feed of the next effect.
\<close>

definition arrays_sized :: "nat \<Rightarrow> MEDModel \<Rightarrow> bool" where
  "arrays_sized N m \<longleftrightarrow>
     length (T_effect m) = N \<and> length (M_feed_arr m) = N \<and> length (M_brine m) = N \<and>
     length (M_vapor m) = N \<and> length (S_brine m) = N \<and> length (A_effect m) = N \<and>
     length (S_feed_arr m) = N \<and> length (T_feed_in m) = N \<and> length (M_vapor_preheat m) = N"

definition effect_balance :: "MEDModel \<Rightarrow> nat \<Rightarrow> bool" where
  "effect_balance m i \<longleftrightarrow>
     M_vapor m ! i =
       max 0 ((heat_input i m - sensible_heat i m) / latent_heat (T_effect m ! i)) \<and>
     M_brine m ! i = M_feed_arr m ! i - M_vapor m ! i \<and>
     S_brine m ! i =
       (if M_brine m ! i > 1 / 1000000
        then M_feed_arr m ! i * S_feed_arr m ! i / M_brine m ! i else S_feed_arr m ! i) \<and>
     A_effect m ! i =
       (if delta_T_drive i m > 0
        then heat_input i m /
               (heat_transfer_coefficient_evaporator (T_effect m ! i) * delta_T_drive i m)
        else 0) \<and>
     latent_heat (T_effect m ! i) \<noteq> 0 \<and>
     (0 < i \<longrightarrow> T_feed_in m ! i = T_effect m ! (i - 1)) \<and>
     (int i < n m - 1 \<longrightarrow>
        M_feed_arr m ! (i + 1) = M_brine m ! i \<and> S_feed_arr m ! (i + 1) = S_brine m ! i)"

subsection \<open>Inputs used in the examples\<close>

text \<open>
  The simulator that the constructor returns for the default parameters and a dictionary
  of nominal results holding \<^verbatim>\<open>Q_nominal_W = 1e6\<close> and \<^verbatim>\<open>GOR = 5\<close>.
\<close>

definition example_sim :: SolarIntegratedMEDModel where
  "example_sim = projr (sim_init default_parameters 1000000 5)"

text \<open>An all-zero irradiance sequence for the given hours, and the 24 hours of a day.\<close>

definition zero_irradiance :: "int list \<Rightarrow> (int \<times> real) list" where
  "zero_irradiance hs = map (\<lambda>h. (h, 0)) hs"

definition day_hours :: "int list" where
  "day_hours = [0, 1, 2, 3, 4, 5, 6, 7, 8, 9, 10, 11, 12, 13, 14, 15, 16, 17, 18, 19, 20, 21, 22, 23]"

text \<open>The same for a nominal load of 4 kW.\<close>

definition small_load_sim :: SolarIntegratedMEDModel where
  "small_load_sim = projr (sim_init default_parameters 4000 5)"

text \<open>
  The default plant with cooling water at 65 degrees: the temperature drop of 5 degrees
  is less than the \<open>8 * 0.8\<close> degrees of boiling point elevation.
\<close>

definition warm_cooling_water :: MEDParameters where
  "warm_cooling_water = default_parameters\<lparr>T_cw := 65\<rparr>"

text \<open>The default plant without feed water.\<close>

definition no_feed :: MEDParameters where
  "no_feed = default_parameters\<lparr>M_feed := 0\<rparr>"



section \<open>The dispatch simulator: storage\<close>

lemma latent_heat_70: "latent_heat 70 = 233817909 / 100"
  by (simp add: latent_heat_def power2_eq_square power3_eq_cube)

lemma sim_init_Inr:
  assumes "sim_init p Q g = Inr sim"
  shows "sim_params sim = p" and "sim_Q_nominal_W sim = Q" and "sim_GOR sim = g"
    and "storage_capacity_J sim = storage_capacity_kWh p * 3600"
    and "0 \<le> n_effects p"
  using assms by (auto simp: sim_init_def MEDModel_init_def np_zeros_def split: if_splits)

lemma sim_init_returns:
  assumes "0 \<le> n_effects p"
  shows "\<exists>sim. sim_init p Q g = Inr sim"
  using assms by (simp add: sim_init_def MEDModel_init_def np_zeros_def)

lemma sim_init_raises:
  assumes "n_effects p < 0"
  shows "sim_init p Q g = Inl ValueError"
  using assms by (simp add: sim_init_def MEDModel_init_def np_zeros_def)

lemma example_sim_returned: "sim_init default_parameters 1000000 5 = Inr example_sim"
  by (simp add: example_sim_def sim_init_def MEDModel_init_def np_zeros_def default_parameters_def)

lemma small_load_sim_returned: "sim_init default_parameters 4000 5 = Inr small_load_sim"
  by (simp add: small_load_sim_def sim_init_def MEDModel_init_def np_zeros_def
      default_parameters_def)

lemmas sim_eval_defs =
  example_sim_def sim_init_def MEDModel_init_def np_zeros_def initial_state_def
  default_parameters_def dispatch_step_def energy_management_def distillate_rate_def
  solar_heat_input_def Let_def latent_heat_70 J_TO_KWH_def

lemma energy_management_bounds:
  assumes "0 \<le> storage_capacity_J sim" "0 \<le> s" "s \<le> storage_capacity_J sim"
    and "energy_management sim q s = (qm, s', md)"
  shows "0 \<le> s' \<and> s' \<le> storage_capacity_J sim"
  using assms by (auto simp: energy_management_def Let_def split: if_splits)

lemma dispatch_step_storage:
  assumes "dispatch_step sim st hi = Inr st'"
  shows "current_storage_J st' =
    fst (snd (energy_management sim (solar_heat_input sim (snd hi)) (current_storage_J st)))"
  using assms by (auto simp: dispatch_step_def Let_def split: prod.splits sum.splits)

lemma dispatch_step_bounds:
  assumes "0 \<le> storage_capacity_J sim" "0 \<le> current_storage_J st"
    and "current_storage_J st \<le> storage_capacity_J sim"
    and "dispatch_step sim st hi = Inr st'"
  shows "0 \<le> current_storage_J st' \<and> current_storage_J st' \<le> storage_capacity_J sim"
proof -
  obtain qm s' md where e:
    "energy_management sim (solar_heat_input sim (snd hi)) (current_storage_J st) = (qm, s', md)"
    by (cases "energy_management sim (solar_heat_input sim (snd hi)) (current_storage_J st)") auto
  have "current_storage_J st' = s'"
    using dispatch_step_storage[OF assms(4)] e by simp
  with energy_management_bounds[OF assms(1-3) e] show ?thesis by simp
qed

lemma storage_levels_bounds:
  assumes "0 \<le> storage_capacity_J sim" "0 \<le> current_storage_J st"
    and "current_storage_J st \<le> storage_capacity_J sim"
    and "Some s \<in> set (storage_levels sim st solar_resource)"
  shows "0 \<le> s \<and> s \<le> storage_capacity_J sim"
  using assms
proof (induction solar_resource arbitrary: st)
  case Nil
  then show ?case by simp
next
  case (Cons hi rest)
  show ?case
  proof (cases "dispatch_step sim st hi")
    case (Inl e)
    with Cons.prems(4) show ?thesis by auto
  next
    case (Inr st')
    note b = dispatch_step_bounds[OF Cons.prems(1-3) Inr]
    from Cons.prems(4) Inr
    have "s = current_storage_J st' \<or> Some s \<in> set (storage_levels sim st' rest)"
      by auto
    then show ?thesis using b Cons.IH[OF Cons.prems(1)] by blast
  qed
qed

lemma example_storage_levels:
  "storage_levels example_sim (initial_state example_sim) [(0, 0), (1, 0), (2, 800), (3, 140)]
     = [Some 0, Some 0, Some 180000000, Some 108000000]"
  by (simp add: sim_eval_defs)

text \<open>
  The levels of \<open>storage_levels\<close> are the levels of the run: when the run returns, the
  level after hour \<open>j\<close> is the one that record \<open>j\<close> reports in \<^verbatim>\<open>storage_MWh\<close>, scaled
  back.
\<close>

lemma dispatch_loop_levels:
  assumes "dispatch_loop sim st solar_resource = Inr st'"
  shows "\<exists>recs. hourly_results st' = hourly_results st @ recs
     \<and> storage_levels sim st solar_resource =
         map (\<lambda>x. Some (storage_MWh x * 1000 * J_TO_KWH)) recs"
  using assms
proof (induction solar_resource arbitrary: st)
  case Nil
  then show ?case by simp
next
  case (Cons hi rest)
  from Cons.prems obtain st1 where s: "dispatch_step sim st hi = Inr st1"
    and l: "dispatch_loop sim st1 rest = Inr st'"
    by (auto split: sum.splits)
  from s obtain r where r: "hourly_results st1 = hourly_results st @ [r]"
    and v: "storage_MWh r * 1000 * J_TO_KWH = current_storage_J st1"
    by (auto simp: dispatch_step_def Let_def J_TO_KWH_def split: prod.splits sum.splits)
  from Cons.IH[OF l] obtain recs where
    a: "hourly_results st' = hourly_results st1 @ recs"
    and b: "storage_levels sim st1 rest = map (\<lambda>x. Some (storage_MWh x * 1000 * J_TO_KWH)) recs"
    by blast
  show ?case
    using s r v a b by (intro exI[of _ "r # recs"]) simp
qed

lemma simulate_daily_operation_levels:
  assumes "simulate_daily_operation sim solar_resource = Inr res"
  shows "storage_levels sim (initial_state sim) solar_resource =
     map (\<lambda>x. Some (storage_MWh x * 1000 * J_TO_KWH)) (hourly_data res)"
proof -
  from assms obtain st' where l: "dispatch_loop sim (initial_state sim) solar_resource = Inr st'"
    and h: "hourly_data res = hourly_results st'"
    by (auto simp: simulate_daily_operation_def split: sum.splits)
  from dispatch_loop_levels[OF l] show ?thesis
    unfolding h by (auto simp: initial_state_def)
qed

text \<open>
  Claim C1. In an hour with \<open>0 < Q_solar < Q_nominal\<close> and a storage level of at least
  the deficit \<open>(Q_nominal - Q_solar) * 3600\<close>, the step is said to deliver \<open>Q_nominal\<close> to
  the plant, to take the deficit from the storage and to label the hour "Solar + Draw".
  The program takes the deficit and sets the label, but never assigns \<^verbatim>\<open>Q_med_W\<close> in
  that branch: the heat delivered stays \<open>0\<close> and so does the distillate. Evaluated at the
  half-full default storage (90 MJ) with \<open>Q_nominal = 1 MW\<close> and an irradiance of
  140 W/m2 (\<open>Q_solar = 0.98 MW\<close>, deficit 72 MJ), on the simulator that the constructor
  returns.
\<close>

theorem solar_draw_delivers_no_heat:
  "sim_init default_parameters 1000000 5 = Inr example_sim
   \<and> dispatch_step example_sim (initial_state example_sim) (12, 140) =
     Inr \<lparr> current_storage_J = 18000000, daily_distillate_kg = 0,
           daily_solar_collection_J = 3528000000,
           hourly_results =
             [\<lparr> hour = 12, irradiance_W_m2 = 140, Q_med_MW = 0, storage_MWh = 5 / 1000,
                distillate_kg_s = 0, mode = ''Solar + Draw'' \<rparr>] \<rparr>"
  by (simp add: sim_eval_defs)

text \<open>The same for every hour of that branch: the heat delivered is \<open>0\<close>.\<close>

lemma solar_draw_branch:
  assumes "0 < q" "q < sim_Q_nominal_W sim" "(sim_Q_nominal_W sim - q) * 3600 \<le> s"
  shows "energy_management sim q s = (0, s - (sim_Q_nominal_W sim - q) * 3600, ''Solar + Draw'')"
  using assms by (simp add: energy_management_def Let_def)

text \<open>
  Claim C2. From a half-full storage, the storage level after every hourly step lies in
  \<open>[0, capacity]\<close>, for the capacity in joules that the simulator holds: for every
  simulator \<open>sim\<close> that the constructor returns and every sequence of hours. The capacity
  must not be negative (the interval is empty otherwise); the irradiances need not even
  be non-negative. \<open>storage_levels\<close> lists the level after each step of the run.
\<close>

theorem storage_within_capacity:
  assumes "sim_init p Q g = Inr sim"
    and "0 \<le> storage_capacity_kWh p"
    and "Some s \<in> set (storage_levels sim (initial_state sim) solar_resource)"
  shows "0 \<le> s \<and> s \<le> storage_capacity_J sim"
proof -
  have c: "0 \<le> storage_capacity_J sim"
    using assms(2) sim_init_Inr(4)[OF assms(1)] by simp
  show ?thesis
    by (rule storage_levels_bounds[OF c _ _ assms(3)]) (use c in \<open>simp_all add: initial_state_def\<close>)
qed

theorem storage_within_capacity_witness:
  "sim_init default_parameters 1000000 5 = Inr example_sim
   \<and> 0 \<le> storage_capacity_kWh default_parameters
   \<and> Some 108000000 \<in> set (storage_levels example_sim (initial_state example_sim)
        [(0, 0), (1, 0), (2, 800), (3, 140)])
   \<and> (0::real) \<le> 108000000
   \<and> 108000000 \<le> storage_capacity_J example_sim"
  using storage_within_capacity[of default_parameters 1000000 5 example_sim 108000000
      "[(0, 0), (1, 0), (2, 800), (3, 140)]"]
    example_sim_returned example_storage_levels
  by (simp add: default_parameters_def)

text \<open>
  Claim C10. The capacity that a simulator returned by the constructor holds is
  \<open>storage_capacity_kWh * 3600\<close> (and not \<open>storage_capacity_kWh * 3.6e6\<close>, the number of
  joules in that many kWh), the run starts from \<open>storage_capacity_kWh * 1800\<close>, charging
  is cut at \<open>storage_capacity_kWh * 3600\<close>, and the level reported for an hour is the
  level on that scale, divided by \<open>3.6e6\<close> and by \<open>1000\<close>.
\<close>

theorem storage_capacity_is_kWh_times_3600:
  assumes "sim_init p Q g = Inr sim"
  shows "storage_capacity_J sim = storage_capacity_kWh p * 3600
   \<and> current_storage_J (initial_state sim) = storage_capacity_kWh p * 1800
   \<and> (storage_capacity_kWh p \<noteq> 0 \<longrightarrow>
        storage_capacity_J sim \<noteq> storage_capacity_kWh p * J_TO_KWH)
   \<and> (Q \<le> q \<longrightarrow>
        fst (snd (energy_management sim q s)) =
          min (storage_capacity_kWh p * 3600) (s + (q - Q) * 3600))
   \<and> (dispatch_step sim st hi = Inr st' \<longrightarrow>
        storage_MWh (last (hourly_results st')) = current_storage_J st' / 3600000 / 1000)"
  using sim_init_Inr(2,4)[OF assms]
  by (auto simp: initial_state_def J_TO_KWH_def energy_management_def
      dispatch_step_def Let_def split: prod.splits sum.splits)

theorem storage_capacity_is_kWh_times_3600_witness:
  "sim_init default_parameters 1000000 5 = Inr example_sim
   \<and> storage_capacity_kWh default_parameters \<noteq> 0
   \<and> (1000000::real) \<le> 5600000
   \<and> dispatch_step example_sim (initial_state example_sim) (12, 800) =
      Inr \<lparr> current_storage_J = 180000000, daily_distillate_kg = 500000000 / 233817909 * 3600,
            daily_solar_collection_J = 20160000000,
            hourly_results =
              [\<lparr> hour = 12, irradiance_W_m2 = 800, Q_med_MW = 1, storage_MWh = 5 / 100,
                 distillate_kg_s = 500000000 / 233817909, mode = ''Solar + Charge'' \<rparr>] \<rparr>
   \<and> storage_capacity_J example_sim = 50000 * 3600
   \<and> current_storage_J (initial_state example_sim) = 50000 * 1800
   \<and> storage_capacity_J example_sim \<noteq> 50000 * J_TO_KWH
   \<and> fst (snd (energy_management example_sim 5600000 90000000)) =
       min (50000 * 3600) (90000000 + (5600000 - 1000000) * 3600)"
  using storage_capacity_is_kWh_times_3600[of default_parameters 1000000 5 example_sim
      5600000 90000000 "initial_state example_sim" "(12, 800)"
      "\<lparr> current_storage_J = 180000000, daily_distillate_kg = 500000000 / 233817909 * 3600,
            daily_solar_collection_J = 20160000000,
            hourly_results =
              [\<lparr> hour = 12, irradiance_W_m2 = 800, Q_med_MW = 1, storage_MWh = 5 / 100,
                 distillate_kg_s = 500000000 / 233817909, mode = ''Solar + Charge'' \<rparr>] \<rparr>"]
  by (simp add: sim_eval_defs)

section \<open>The dispatch simulator: a day without sun\<close>

text \<open>
  Claim C3. From a half-full storage and 24 hours without sun, the plant is said to run
  at the full nominal load until the stored energy is exhausted and then to be "Off",
  for about \<open>storage_capacity_kWh / Q_nominal_kW\<close> hours. For the default storage of
  50000 kWh and a nominal load of 4 kW that quotient is 12500 hours, and the half-full
  store of 25000 kWh is worth 6250 hours of load: on either count all 24 hours of the
  day are hours at full load. The constructor holds the capacity as \<open>50000 * 3600\<close> J
  (its comment reads "Convert kWh to J", which is the factor \<open>3.6e6\<close> of
  \<^verbatim>\<open>J_TO_KWH\<close>), so that the half-full store is 90 MJ, or 25 kWh: the run has 6 hours
  at full load, one "Partial Storage" hour at 1 kW, and 17 hours "Off".
\<close>

theorem zero_irradiance_run_ends_after_six_hours:
  "sim_init default_parameters 4000 5 = Inr small_load_sim
   \<and> map_sum id (\<lambda>r. map (\<lambda>x. (mode x, Q_med_MW x * 1000000)) (hourly_data r))
      (simulate_daily_operation small_load_sim (zero_irradiance day_hours))
     = Inr (replicate 6 (''Storage Only'', 4000) @ [(''Partial Storage'', 1000)]
            @ replicate 17 (''Off'', 0))
   \<and> storage_capacity_kWh (sim_params small_load_sim) / (sim_Q_nominal_W small_load_sim / 1000)
       = 12500
   \<and> storage_capacity_kWh (sim_params small_load_sim) / 2 / (sim_Q_nominal_W small_load_sim / 1000)
       = 6250
   \<and> current_storage_J (initial_state small_load_sim) / J_TO_KWH = 25"
  by (simp add: small_load_sim_def zero_irradiance_def day_hours_def
      simulate_daily_operation_def sim_eval_defs numeral_eq_Suc)

section \<open>The steady-state solver: the stages of the forward pass\<close>


lemma update_feed_temperature_fields [simp]:
  "params (update_feed_temperature i m) = params m"
  "n (update_feed_temperature i m) = n m"
  "T_effect (update_feed_temperature i m) = T_effect m"
  "M_feed_arr (update_feed_temperature i m) = M_feed_arr m"
  "M_brine (update_feed_temperature i m) = M_brine m"
  "M_vapor (update_feed_temperature i m) = M_vapor m"
  "S_brine (update_feed_temperature i m) = S_brine m"
  "A_effect (update_feed_temperature i m) = A_effect m"
  "M_steam (update_feed_temperature i m) = M_steam m"
  "S_feed_arr (update_feed_temperature i m) = S_feed_arr m"
  "M_vapor_preheat (update_feed_temperature i m) = M_vapor_preheat m"
  "T_feed_in (update_feed_temperature i m) =
     (if i > 0 then (T_feed_in m)[i := T_effect m ! (i - 1)] else T_feed_in m)"
  by (simp_all add: update_feed_temperature_def)

lemma evaporation_fields:
  assumes "evaporation i Q m = Inr m'"
  shows "params m' = params m" "n m' = n m" "T_effect m' = T_effect m"
    "M_feed_arr m' = M_feed_arr m" "M_brine m' = M_brine m" "S_brine m' = S_brine m"
    "A_effect m' = A_effect m" "M_steam m' = M_steam m" "S_feed_arr m' = S_feed_arr m"
    "M_vapor_preheat m' = M_vapor_preheat m" "T_feed_in m' = T_feed_in m"
    "M_vapor m' = (M_vapor m)[i := max 0 ((Q - sensible_heat i m) / latent_heat (T_effect m ! i))]"
    "latent_heat (T_effect m ! i) \<noteq> 0"
  using assms by (auto simp: evaporation_def Let_def split: if_splits)

lemma mass_and_salt_balances_fields [simp]:
  "params (mass_and_salt_balances i m) = params m"
  "n (mass_and_salt_balances i m) = n m"
  "T_effect (mass_and_salt_balances i m) = T_effect m"
  "M_feed_arr (mass_and_salt_balances i m) = M_feed_arr m"
  "M_vapor (mass_and_salt_balances i m) = M_vapor m"
  "A_effect (mass_and_salt_balances i m) = A_effect m"
  "M_steam (mass_and_salt_balances i m) = M_steam m"
  "S_feed_arr (mass_and_salt_balances i m) = S_feed_arr m"
  "M_vapor_preheat (mass_and_salt_balances i m) = M_vapor_preheat m"
  "T_feed_in (mass_and_salt_balances i m) = T_feed_in m"
  "M_brine (mass_and_salt_balances i m) = (M_brine m)[i := M_feed_arr m ! i - M_vapor m ! i]"
  "S_brine (mass_and_salt_balances i m) =
     (S_brine m)[i :=
        (if (M_brine m)[i := M_feed_arr m ! i - M_vapor m ! i] ! i > 1 / 1000000
         then M_feed_arr m ! i * S_feed_arr m ! i / (M_brine m)[i := M_feed_arr m ! i - M_vapor m ! i] ! i
         else S_feed_arr m ! i)]"
  by (simp_all add: mass_and_salt_balances_def Let_def)

lemma area_calculation_fields:
  assumes "area_calculation i Q m = Inr m'"
  shows "params m' = params m" "n m' = n m" "T_effect m' = T_effect m"
    "M_feed_arr m' = M_feed_arr m" "M_brine m' = M_brine m" "S_brine m' = S_brine m"
    "M_vapor m' = M_vapor m" "M_steam m' = M_steam m" "S_feed_arr m' = S_feed_arr m"
    "M_vapor_preheat m' = M_vapor_preheat m" "T_feed_in m' = T_feed_in m"
    "A_effect m' = (A_effect m)[i :=
        (if delta_T_drive i m > 0
         then Q / (heat_transfer_coefficient_evaporator (T_effect m ! i) * delta_T_drive i m)
         else 0)]"
    "delta_T_drive i m > 0 \<Longrightarrow>
       heat_transfer_coefficient_evaporator (T_effect m ! i) * delta_T_drive i m \<noteq> 0"
  using assms by (auto simp: area_calculation_def Let_def split: if_splits)

lemma forward_feed_propagation_fields [simp]:
  "params (forward_feed_propagation i m) = params m"
  "n (forward_feed_propagation i m) = n m"
  "T_effect (forward_feed_propagation i m) = T_effect m"
  "M_brine (forward_feed_propagation i m) = M_brine m"
  "M_vapor (forward_feed_propagation i m) = M_vapor m"
  "S_brine (forward_feed_propagation i m) = S_brine m"
  "A_effect (forward_feed_propagation i m) = A_effect m"
  "M_steam (forward_feed_propagation i m) = M_steam m"
  "M_vapor_preheat (forward_feed_propagation i m) = M_vapor_preheat m"
  "T_feed_in (forward_feed_propagation i m) = T_feed_in m"
  "M_feed_arr (forward_feed_propagation i m) =
     (if int i < n m - 1 then (M_feed_arr m)[i + 1 := M_brine m ! i] else M_feed_arr m)"
  "S_feed_arr (forward_feed_propagation i m) =
     (if int i < n m - 1 then (S_feed_arr m)[i + 1 := S_brine m ! i] else S_feed_arr m)"
  by (simp_all add: forward_feed_propagation_def)


lemma forward_step_stages:
  assumes "forward_step i m = Inr m'"
  obtains m2 m4 where
    "evaporation i (heat_input i m) (update_feed_temperature i m) = Inr m2"
    "area_calculation i (heat_input i m) (mass_and_salt_balances i m2) = Inr m4"
    "m' = forward_feed_propagation i m4"
  using assms by (auto simp: forward_step_def Let_def split: sum.splits)


lemma forward_step_fields:
  assumes "forward_step i m = Inr m'" and "arrays_sized N m" and "i < N"
  defines "v \<equiv> max 0 ((heat_input i m - sensible_heat i (update_feed_temperature i m))
               / latent_heat (T_effect m ! i))"
  shows "params m' = params m" "n m' = n m" "T_effect m' = T_effect m"
    "M_vapor_preheat m' = M_vapor_preheat m" "M_steam m' = M_steam m"
    "T_feed_in m' = (if i > 0 then (T_feed_in m)[i := T_effect m ! (i - 1)] else T_feed_in m)"
    "M_vapor m' = (M_vapor m)[i := v]"
    "M_brine m' = (M_brine m)[i := M_feed_arr m ! i - v]"
    "S_brine m' = (S_brine m)[i :=
        (if M_feed_arr m ! i - v > 1 / 1000000
         then M_feed_arr m ! i * S_feed_arr m ! i / (M_feed_arr m ! i - v)
         else S_feed_arr m ! i)]"
    "A_effect m' = (A_effect m)[i :=
        (if delta_T_drive i m > 0
         then heat_input i m /
                (heat_transfer_coefficient_evaporator (T_effect m ! i) * delta_T_drive i m)
         else 0)]"
    "M_feed_arr m' =
       (if int i < n m - 1 then (M_feed_arr m)[i + 1 := M_feed_arr m ! i - v] else M_feed_arr m)"
    "S_feed_arr m' =
       (if int i < n m - 1
        then (S_feed_arr m)[i + 1 :=
          (if M_feed_arr m ! i - v > 1 / 1000000
           then M_feed_arr m ! i * S_feed_arr m ! i / (M_feed_arr m ! i - v)
           else S_feed_arr m ! i)]
        else S_feed_arr m)"
    "latent_heat (T_effect m ! i) \<noteq> 0"
    "delta_T_drive i m > 0 \<Longrightarrow>
       heat_transfer_coefficient_evaporator (T_effect m ! i) * delta_T_drive i m \<noteq> 0"
proof -
  obtain m2 m4 where
    e: "evaporation i (heat_input i m) (update_feed_temperature i m) = Inr m2"
    and a: "area_calculation i (heat_input i m) (mass_and_salt_balances i m2) = Inr m4"
    and f: "m' = forward_feed_propagation i m4"
    using forward_step_stages[OF assms(1)] by blast
  note E = evaporation_fields[OF e]
  note A = area_calculation_fields[OF a]
  have len: "i < length (M_vapor m)" "i < length (M_brine m)" "i < length (S_brine m)"
    using assms(2,3) by (simp_all add: arrays_sized_def)
  have d: "delta_T_drive i (mass_and_salt_balances i m2) = delta_T_drive i m"
    by (simp add: delta_T_drive_def E)
  have vm2: "M_vapor m2 = (M_vapor m)[i := v]"
    unfolding v_def using E(12) by simp
  have fm2: "M_feed_arr m2 = M_feed_arr m" "S_feed_arr m2 = S_feed_arr m"
    "M_brine m2 = M_brine m" "S_brine m2 = S_brine m" "A_effect m2 = A_effect m"
    "T_effect m2 = T_effect m" "n m2 = n m"
    using E by simp_all
  show "params m' = params m" "n m' = n m" "T_effect m' = T_effect m"
    "M_vapor_preheat m' = M_vapor_preheat m" "M_steam m' = M_steam m"
    by (simp_all add: f A E)
  show "T_feed_in m' = (if i > 0 then (T_feed_in m)[i := T_effect m ! (i - 1)] else T_feed_in m)"
    by (simp add: f A E)
  show "M_vapor m' = (M_vapor m)[i := v]"
    by (simp add: f A vm2)
  have b4: "M_brine m4 = (M_brine m)[i := M_feed_arr m ! i - v]"
    using len by (simp add: A vm2 fm2)
  have s4: "S_brine m4 = (S_brine m)[i :=
        (if M_feed_arr m ! i - v > 1 / 1000000
         then M_feed_arr m ! i * S_feed_arr m ! i / (M_feed_arr m ! i - v)
         else S_feed_arr m ! i)]"
    using len by (simp add: A vm2 fm2)
  show "M_brine m' = (M_brine m)[i := M_feed_arr m ! i - v]"
    using b4 by (simp add: f)
  show "S_brine m' = (S_brine m)[i :=
        (if M_feed_arr m ! i - v > 1 / 1000000
         then M_feed_arr m ! i * S_feed_arr m ! i / (M_feed_arr m ! i - v)
         else S_feed_arr m ! i)]"
    using s4 by (simp add: f)
  show "A_effect m' = (A_effect m)[i :=
        (if delta_T_drive i m > 0
         then heat_input i m /
                (heat_transfer_coefficient_evaporator (T_effect m ! i) * delta_T_drive i m)
         else 0)]"
    by (simp add: f A(12) d fm2)
  have n4: "n m4 = n m" "M_feed_arr m4 = M_feed_arr m" "S_feed_arr m4 = S_feed_arr m"
    by (simp_all add: A fm2)
  show "M_feed_arr m' =
       (if int i < n m - 1 then (M_feed_arr m)[i + 1 := M_feed_arr m ! i - v] else M_feed_arr m)"
    using len unfolding f forward_feed_propagation_fields n4 b4 by simp
  show "S_feed_arr m' =
       (if int i < n m - 1
        then (S_feed_arr m)[i + 1 :=
          (if M_feed_arr m ! i - v > 1 / 1000000
           then M_feed_arr m ! i * S_feed_arr m ! i / (M_feed_arr m ! i - v)
           else S_feed_arr m ! i)]
        else S_feed_arr m)"
    using len unfolding f forward_feed_propagation_fields n4 s4 by simp
  show "latent_heat (T_effect m ! i) \<noteq> 0" using E(13) by simp
  show "heat_transfer_coefficient_evaporator (T_effect m ! i) * delta_T_drive i m \<noteq> 0"
    if "delta_T_drive i m > 0"
    using A(13) that by (simp add: d fm2)
qed

lemma forward_step_sized:
  assumes "forward_step i m = Inr m'" and "arrays_sized N m" and "i < N"
  shows "arrays_sized N m'"
  using assms(2) unfolding arrays_sized_def forward_step_fields[OF assms]
  by simp


lemma heat_input_cong:
  assumes "params m' = params m" "M_steam m' = M_steam m" "T_effect m' = T_effect m"
    and "M_vapor_preheat m' = M_vapor_preheat m"
    and "0 < i \<Longrightarrow> M_vapor m' ! (i - 1) = M_vapor m ! (i - 1)"
  shows "heat_input i m' = heat_input i m"
  using assms by (simp add: heat_input_def Let_def)

lemma sensible_heat_cong:
  assumes "T_effect m' = T_effect m" "T_feed_in m' ! i = T_feed_in m ! i"
    and "S_feed_arr m' ! i = S_feed_arr m ! i" "M_feed_arr m' ! i = M_feed_arr m ! i"
  shows "sensible_heat i m' = sensible_heat i m"
  using assms by (simp add: sensible_heat_def Let_def)

lemma delta_T_drive_cong:
  assumes "params m' = params m" "T_effect m' = T_effect m"
  shows "delta_T_drive i m' = delta_T_drive i m"
  using assms by (simp add: delta_T_drive_def)

lemma forward_step_unchanged:
  assumes "forward_step i m = Inr m'" and "arrays_sized N m" and "i < N"
  shows "k \<noteq> i \<Longrightarrow> M_vapor m' ! k = M_vapor m ! k"
    and "k \<noteq> i \<Longrightarrow> M_brine m' ! k = M_brine m ! k"
    and "k \<noteq> i \<Longrightarrow> S_brine m' ! k = S_brine m ! k"
    and "k \<noteq> i \<Longrightarrow> A_effect m' ! k = A_effect m ! k"
    and "k \<noteq> i \<Longrightarrow> T_feed_in m' ! k = T_feed_in m ! k"
    and "k \<noteq> i + 1 \<Longrightarrow> M_feed_arr m' ! k = M_feed_arr m ! k"
    and "k \<noteq> i + 1 \<Longrightarrow> S_feed_arr m' ! k = S_feed_arr m ! k"
  unfolding forward_step_fields[OF assms] by simp_all

lemma forward_step_establishes:
  assumes s: "forward_step i m = Inr m'" and z: "arrays_sized N m" and i: "i < N"
    and n: "n m = int N"
  shows "effect_balance m' i"
proof -
  note F = forward_step_fields[OF s z i]
  note U = forward_step_unchanged[OF s z i]
  have len: "i < length (M_vapor m)" "i < length (M_brine m)" "i < length (S_brine m)"
    "i < length (A_effect m)" "i < length (T_feed_in m)"
    "length (M_feed_arr m) = N" "length (S_feed_arr m) = N"
    using z i by (simp_all add: arrays_sized_def)
  have hi: "heat_input i m' = heat_input i m"
    by (rule heat_input_cong) (simp_all add: F(1-5) U)
  have tf: "T_feed_in m' ! i = T_feed_in (update_feed_temperature i m) ! i"
    by (simp add: F(6))
  have sh: "sensible_heat i m' = sensible_heat i (update_feed_temperature i m)"
    by (rule sensible_heat_cong) (simp_all add: F(3) tf U)
  have dt: "delta_T_drive i m' = delta_T_drive i m"
    by (rule delta_T_drive_cong) (simp_all add: F(1-3))
  let ?v = "max 0 ((heat_input i m - sensible_heat i (update_feed_temperature i m))
               / latent_heat (T_effect m ! i))"
  have v: "M_vapor m' ! i = ?v" using len by (simp add: F(7))
  have f: "M_feed_arr m' ! i = M_feed_arr m ! i" "S_feed_arr m' ! i = S_feed_arr m ! i"
    by (simp_all add: U)
  have b: "M_brine m' ! i = M_feed_arr m ! i - ?v" using len by (simp add: F(8))
  have sb: "S_brine m' ! i =
        (if M_feed_arr m ! i - ?v > 1 / 1000000
         then M_feed_arr m ! i * S_feed_arr m ! i / (M_feed_arr m ! i - ?v)
         else S_feed_arr m ! i)" using len by (simp add: F(9))
  have a: "A_effect m' ! i =
        (if delta_T_drive i m > 0
         then heat_input i m /
                (heat_transfer_coefficient_evaporator (T_effect m ! i) * delta_T_drive i m)
         else 0)" using len by (simp add: F(10))
  have t: "0 < i \<Longrightarrow> T_feed_in m' ! i = T_effect m' ! (i - 1)"
    using len by (simp add: F(3,6))
  have p: "M_feed_arr m' ! (i + 1) = M_brine m' ! i \<and> S_feed_arr m' ! (i + 1) = S_brine m' ! i"
    if "int i < n m' - 1"
  proof -
    from that have c: "int i < n m - 1" and l: "i + 1 < N" using n by (simp_all add: F(2))
    show ?thesis using c l len(6,7) unfolding b sb by (simp add: F(11,12))
  qed
  have c1: "M_vapor m' ! i =
       max 0 ((heat_input i m' - sensible_heat i m') / latent_heat (T_effect m' ! i))"
    unfolding hi sh F(3) by (rule v)
  have c2: "M_brine m' ! i = M_feed_arr m' ! i - M_vapor m' ! i"
    unfolding f v by (rule b)
  have c3: "S_brine m' ! i =
       (if M_brine m' ! i > 1 / 1000000
        then M_feed_arr m' ! i * S_feed_arr m' ! i / M_brine m' ! i else S_feed_arr m' ! i)"
    unfolding b f by (rule sb)
  have c4: "A_effect m' ! i =
       (if delta_T_drive i m' > 0
        then heat_input i m' /
               (heat_transfer_coefficient_evaporator (T_effect m' ! i) * delta_T_drive i m')
        else 0)"
    unfolding hi dt F(3) by (rule a)
  have c5: "latent_heat (T_effect m' ! i) \<noteq> 0"
    unfolding F(3) by (rule F(13))
  show ?thesis
    using c1 c2 c3 c4 c5 t p unfolding effect_balance_def by blast
qed

lemma forward_step_preserves:
  assumes s: "forward_step i m = Inr m'" and z: "arrays_sized N m" and i: "i < N"
    and j: "j < i" and e: "effect_balance m j"
  shows "effect_balance m' j"
proof -
  note F = forward_step_fields[OF s z i]
  note U = forward_step_unchanged[OF s z i]
  have hi: "heat_input j m' = heat_input j m"
    by (rule heat_input_cong) (use j in \<open>simp_all add: F(1-5) U\<close>)
  have sh: "sensible_heat j m' = sensible_heat j m"
    by (rule sensible_heat_cong) (use j in \<open>simp_all add: F(3) U\<close>)
  have dt: "delta_T_drive j m' = delta_T_drive j m"
    by (rule delta_T_drive_cong) (simp_all add: F(1-3))
  have u: "M_vapor m' ! j = M_vapor m ! j" "M_brine m' ! j = M_brine m ! j"
    "S_brine m' ! j = S_brine m ! j" "A_effect m' ! j = A_effect m ! j"
    "T_feed_in m' ! j = T_feed_in m ! j" "M_feed_arr m' ! j = M_feed_arr m ! j"
    "S_feed_arr m' ! j = S_feed_arr m ! j" "M_feed_arr m' ! (j + 1) = M_feed_arr m ! (j + 1)"
    "S_feed_arr m' ! (j + 1) = S_feed_arr m ! (j + 1)"
    using j by (simp_all add: U)
  show ?thesis
    using e unfolding effect_balance_def hi sh dt u F(2,3) .
qed

lemma forward_loop_invariant:
  assumes "forward_loop [k..<N] m = Inr m'" and "arrays_sized N m" and "n m = int N"
    and "\<forall>j<k. effect_balance m j"
  shows "arrays_sized N m' \<and> n m' = int N \<and> params m' = params m \<and> T_effect m' = T_effect m
     \<and> M_vapor_preheat m' = M_vapor_preheat m \<and> M_steam m' = M_steam m
     \<and> (\<forall>j<max k N. effect_balance m' j)
     \<and> (\<forall>j\<le>k. M_feed_arr m' ! j = M_feed_arr m ! j \<and> S_feed_arr m' ! j = S_feed_arr m ! j)
     \<and> T_feed_in m' ! 0 = T_feed_in m ! 0"
  using assms
proof (induction "N - k" arbitrary: k m)
  case 0
  then have "[k..<N] = []" by simp
  with 0 show ?case by (simp add: max_def)
next
  case (Suc d)
  then have k: "k < N" by simp
  then have u: "[k..<N] = k # [Suc k..<N]" by (simp add: upt_conv_Cons)
  from Suc.prems(1) obtain m1 where s: "forward_step k m = Inr m1"
    and l: "forward_loop [Suc k..<N] m1 = Inr m'"
    unfolding u by (auto split: sum.splits)
  note F = forward_step_fields[OF s Suc.prems(2) k]
  note U = forward_step_unchanged[OF s Suc.prems(2) k]
  have z1: "arrays_sized N m1" by (rule forward_step_sized[OF s Suc.prems(2) k])
  have n1: "n m1 = int N" using Suc.prems(3) by (simp add: F(2))
  have e1: "\<forall>j<Suc k. effect_balance m1 j"
  proof (intro allI impI)
    fix j assume "j < Suc k"
    then consider "j = k" | "j < k" by linarith
    then show "effect_balance m1 j"
    proof cases
      case 1
      then show ?thesis using forward_step_establishes[OF s Suc.prems(2) k Suc.prems(3)] by simp
    next
      case 2
      then show ?thesis
        using forward_step_preserves[OF s Suc.prems(2) k 2] Suc.prems(4) by blast
    qed
  qed
  have d: "d = N - Suc k" using Suc.hyps(2) by simp
  note IH = Suc.hyps(1)[OF d l z1 n1 e1]
  have mx: "max (Suc k) N = max k N" using k by simp
  have t0: "T_feed_in m1 ! 0 = T_feed_in m ! 0"
    by (simp add: F(6))
  show ?case
    using IH k unfolding mx
    by (auto simp: F(1-5) U t0)
qed


section \<open>The steady-state solver: the object after the call\<close>

lemma temperature_loop_fields:
  "params (temperature_loop js d m) = params m"
  "n (temperature_loop js d m) = n m"
  "M_feed_arr (temperature_loop js d m) = M_feed_arr m"
  "M_brine (temperature_loop js d m) = M_brine m"
  "M_vapor (temperature_loop js d m) = M_vapor m"
  "S_brine (temperature_loop js d m) = S_brine m"
  "A_effect (temperature_loop js d m) = A_effect m"
  "M_steam (temperature_loop js d m) = M_steam m"
  "S_feed_arr (temperature_loop js d m) = S_feed_arr m"
  "T_feed_in (temperature_loop js d m) = T_feed_in m"
  "M_vapor_preheat (temperature_loop js d m) = M_vapor_preheat m"
  "length (T_effect (temperature_loop js d m)) = length (T_effect m)"
  by (induction js d m rule: temperature_loop.induct) simp_all

lemma temperature_loop_nth:
  assumes "i < length (T_effect m)"
  shows "T_effect (temperature_loop js d m) ! i =
     (if i \<in> set js then T_steam (params m) - (real i + 1) * d - BPE (params m)
      else T_effect m ! i)"
  using assms
  by (induction js d m rule: temperature_loop.induct)
    (auto simp: temperature_loop_fields nth_list_update)

lemma preheat_step_fields:
  assumes "preheat_step i f m = Inr m'"
  shows "params m' = params m \<and> n m' = n m \<and> T_effect m' = T_effect m
     \<and> M_feed_arr m' = M_feed_arr m \<and> M_brine m' = M_brine m \<and> M_vapor m' = M_vapor m
     \<and> S_brine m' = S_brine m \<and> A_effect m' = A_effect m \<and> M_steam m' = M_steam m
     \<and> S_feed_arr m' = S_feed_arr m
     \<and> length (T_feed_in m') = length (T_feed_in m)
     \<and> length (M_vapor_preheat m') = length (M_vapor_preheat m)"
  using assms by (auto simp: preheat_step_def Let_def split: if_splits)

lemma preheat_loop_fields:
  assumes "preheat_loop js f m = Inr m'"
  shows "params m' = params m \<and> n m' = n m \<and> T_effect m' = T_effect m
     \<and> M_feed_arr m' = M_feed_arr m \<and> M_brine m' = M_brine m \<and> M_vapor m' = M_vapor m
     \<and> S_brine m' = S_brine m \<and> A_effect m' = A_effect m \<and> M_steam m' = M_steam m
     \<and> S_feed_arr m' = S_feed_arr m
     \<and> length (T_feed_in m') = length (T_feed_in m)
     \<and> length (M_vapor_preheat m') = length (M_vapor_preheat m)"
  using assms
proof (induction js arbitrary: m)
  case Nil
  then show ?case by simp
next
  case (Cons i js)
  from Cons.prems obtain m1 where s: "preheat_step i f m = Inr m1"
    and l: "preheat_loop js f m1 = Inr m'"
    by (auto split: sum.splits)
  show ?case using Cons.IH[OF l] preheat_step_fields[OF s] by simp
qed

lemma final_metrics_fields:
  "params (final_metrics m) = params m"
  "n (final_metrics m) = n m"
  "T_effect (final_metrics m) = T_effect m"
  "M_feed_arr (final_metrics m) = M_feed_arr m"
  "M_brine (final_metrics m) = M_brine m"
  "M_vapor (final_metrics m) = M_vapor m"
  "S_brine (final_metrics m) = S_brine m"
  "A_effect (final_metrics m) = A_effect m"
  "M_steam (final_metrics m) = M_steam m"
  "S_feed_arr (final_metrics m) = S_feed_arr m"
  "T_feed_in (final_metrics m) = T_feed_in m"
  "M_vapor_preheat (final_metrics m) = M_vapor_preheat m"
  "M_total_distillate (final_metrics m) = sum_list (M_vapor m)"
  "GOR (final_metrics m) = (if M_steam m > 0 then sum_list (M_vapor m) / M_steam m else 0)"
  "As (final_metrics m) =
     (if sum_list (M_vapor m) > 0 then sum_list (A_effect m) / sum_list (M_vapor m) else 0)"
  by (simp_all add: final_metrics_def Let_def)

lemma final_metrics_balance:
  "effect_balance (final_metrics m) i = effect_balance m i"
  by (simp add: effect_balance_def heat_input_def sensible_heat_def delta_T_drive_def
      final_metrics_fields)

lemma final_metrics_sized:
  "arrays_sized N (final_metrics m) = arrays_sized N m"
  by (simp add: arrays_sized_def final_metrics_fields)

lemma solve_stages:
  assumes "solve p = Inr m"
    and N: "N = nat (n_effects p)"
    and d: "d = (T_steam p - T_cw p - real_of_int (n_effects p) * BPE p)
                / real_of_int (n_effects p + 1)"
  obtains m4 m5 m7 where
    "1 \<le> n_effects p"
    "params m4 = p" "n m4 = n_effects p" "arrays_sized N m4"
    "\<And>i. i < N \<Longrightarrow> T_effect m4 ! i = T_steam p - (real i + 1) * d - BPE p"
    "M_feed_arr m4 = (replicate N 0)[0 := M_feed p]"
    "S_feed_arr m4 = replicate N (S_feed p)"
    "T_feed_in m4 = (replicate N 0)[0 := T_feed p]"
    "M_vapor_preheat m4 = replicate N 0"
    "preheat_loop (rev [1..<N]) (M_feed p) m4 = Inr m5"
    "forward_loop [0..<N] (m5\<lparr>M_steam := M_feed p * (12 / 100) / (514 / 100)\<rparr>) = Inr m7"
    "m = final_metrics m7"
proof -
  have n0: "0 \<le> n_effects p"
    using assms(1) by (auto simp: solve_def MEDModel_init_def np_zeros_def split: if_splits)
  define z where "z = replicate N (0::real)"
  define m0 where "m0 =
    \<lparr> params = p, n = n_effects p, T_effect = z, M_feed_arr = z, M_brine = z,
      M_vapor = z, S_brine = z, A_effect = z, M_total_distillate = 0, M_steam = 0,
      GOR = 0, As = 0, S_feed_arr = [], T_feed_in = [], M_vapor_preheat = [] \<rparr>"
  have i0: "MEDModel_init p = Inr m0"
    using n0 by (simp add: MEDModel_init_def np_zeros_def m0_def z_def N)
  have s: "solve_model m0 = Inr m" using assms(1) i0 by (simp add: solve_def)
  have zne: "z \<noteq> []"
    using s by (auto simp: solve_model_def distribute_feed_water_def m0_def split: if_splits)
  then have N0: "0 < N" by (simp add: z_def)
  then have n1: "1 \<le> n_effects p" by (simp add: N)
  define m2 where "m2 = m0\<lparr>M_feed_arr := z[0 := M_feed p],
      S_feed_arr := replicate N (S_feed p), T_feed_in := z\<rparr>"
  define m3 where "m3 = temperature_loop [0..<N] d m2"
  define m4 where "m4 = m3\<lparr>T_feed_in := z[0 := T_feed p], M_vapor_preheat := z\<rparr>"
  have s': "solve_model m0 =
    (case preheat_loop (rev [1..<N]) (M_feed p) m4 of
       Inl e \<Rightarrow> Inl e
     | Inr m5 \<Rightarrow>
        (case forward_loop [0..<nat (n m5)]
                (m5\<lparr>M_steam := M_feed (params m5) * (12 / 100) / (514 / 100)\<rparr>) of
           Inl e \<Rightarrow> Inl e
         | Inr m7 \<Rightarrow> Inr (final_metrics m7)))"
    using zne n0 N0
    by (simp add: solve_model_def distribute_feed_water_def np_zeros_def Let_def m0_def
        m2_def m3_def m4_def N[symmetric] d z_def temperature_loop_fields
        cong: sum.case_cong)
  from s s' obtain m5 where p5: "preheat_loop (rev [1..<N]) (M_feed p) m4 = Inr m5"
    by (auto split: sum.splits)
  note P = preheat_loop_fields[OF p5]
  have pm4: "params m4 = p" "n m4 = n_effects p"
    by (simp_all add: m4_def m3_def temperature_loop_fields m2_def m0_def)
  have pm5: "params m5 = p" "nat (n m5) = N" using P pm4 N by simp_all
  from s s' p5 obtain m7 where
    f7: "forward_loop [0..<N] (m5\<lparr>M_steam := M_feed p * (12 / 100) / (514 / 100)\<rparr>) = Inr m7"
    and fm: "m = final_metrics m7"
    by (auto simp: pm5 split: sum.splits)
  have sz: "arrays_sized N m4"
    by (simp add: arrays_sized_def m4_def m3_def temperature_loop_fields m2_def m0_def z_def)
  have te: "T_effect m4 ! i = T_steam p - (real i + 1) * d - BPE p" if "i < N" for i
  proof -
    have "i < length (T_effect m2)" using that by (simp add: m2_def m0_def z_def)
    from temperature_loop_nth[OF this, of "[0..<N]" d] that
    show ?thesis by (simp add: m4_def m3_def m2_def m0_def)
  qed
  show ?thesis
    by (rule that[OF n1 pm4 sz te _ _ _ _ p5 f7 fm])
      (simp_all add: m4_def m3_def temperature_loop_fields m2_def m0_def z_def)
qed


lemma solve_Inr:
  assumes "solve p = Inr m"
    and N: "N = nat (n_effects p)"
    and d: "d = (T_steam p - T_cw p - real_of_int (n_effects p) * BPE p)
                / real_of_int (n_effects p + 1)"
  shows "1 \<le> n_effects p" and "params m = p" and "n m = n_effects p"
    and "arrays_sized N m"
    and "\<And>i. i < N \<Longrightarrow> T_effect m ! i = T_steam p - (real i + 1) * d - BPE p"
    and "M_steam m = M_feed p * (12 / 100) / (514 / 100)"
    and "\<And>i. i < N \<Longrightarrow> effect_balance m i"
    and "M_feed_arr m ! 0 = M_feed p" and "S_feed_arr m ! 0 = S_feed p"
    and "M_total_distillate m = sum_list (M_vapor m)"
    and "GOR m = (if M_steam m > 0 then M_total_distillate m / M_steam m else 0)"
    and "As m = (if M_total_distillate m > 0 then sum_list (A_effect m) / M_total_distillate m
                 else 0)"
proof -
  obtain m4 m5 m7 where n1: "1 \<le> n_effects p"
    and p4: "params m4 = p" "n m4 = n_effects p" and z4: "arrays_sized N m4"
    and t4: "\<And>i. i < N \<Longrightarrow> T_effect m4 ! i = T_steam p - (real i + 1) * d - BPE p"
    and a4: "M_feed_arr m4 = (replicate N 0)[0 := M_feed p]"
      "S_feed_arr m4 = replicate N (S_feed p)"
    and p5: "preheat_loop (rev [1..<N]) (M_feed p) m4 = Inr m5"
    and f7: "forward_loop [0..<N] (m5\<lparr>M_steam := M_feed p * (12 / 100) / (514 / 100)\<rparr>) = Inr m7"
    and fm: "m = final_metrics m7"
    using solve_stages[OF assms] by metis
  let ?m6 = "m5\<lparr>M_steam := M_feed p * (12 / 100) / (514 / 100)\<rparr>"
  note P = preheat_loop_fields[OF p5]
  have N0: "0 < N" using n1 N by simp
  have z6: "arrays_sized N ?m6" using z4 P by (simp add: arrays_sized_def)
  have n6: "n ?m6 = int N" using P p4 n1 N by simp
  have "\<forall>j<0. effect_balance ?m6 j" by simp
  note I = forward_loop_invariant[OF f7 z6 n6 this]
  show "1 \<le> n_effects p" by (rule n1)
  show "params m = p" using I P p4 by (simp add: fm final_metrics_fields)
  show "n m = n_effects p" using I n1 N by (simp add: fm final_metrics_fields)
  show "arrays_sized N m" using I by (simp add: fm final_metrics_sized)
  show "T_effect m ! i = T_steam p - (real i + 1) * d - BPE p" if "i < N" for i
    using I P t4[OF that] by (simp add: fm final_metrics_fields)
  show ms: "M_steam m = M_feed p * (12 / 100) / (514 / 100)"
    using I by (simp add: fm final_metrics_fields)
  show "effect_balance m i" if "i < N" for i
    using I that by (simp add: fm final_metrics_balance)
  show "M_feed_arr m ! 0 = M_feed p"
    using I P a4 N0 by (simp add: fm final_metrics_fields)
  show "S_feed_arr m ! 0 = S_feed p"
    using I P a4 N0 by (simp add: fm final_metrics_fields)
  show "M_total_distillate m = sum_list (M_vapor m)"
    by (simp add: fm final_metrics_fields)
  show "GOR m = (if M_steam m > 0 then M_total_distillate m / M_steam m else 0)"
    by (simp add: fm final_metrics_fields)
  show "As m = (if M_total_distillate m > 0 then sum_list (A_effect m) / M_total_distillate m
                 else 0)"
    by (simp add: fm final_metrics_fields)
qed

lemma preheat_step_total:
  assumes "latent_heat (T_effect m ! (i - 1)) \<noteq> 0"
  shows "\<exists>m'. preheat_step i f m = Inr m'"
  using assms by (simp add: preheat_step_def Let_def)

lemma preheat_loop_total:
  assumes "\<forall>i\<in>set js. latent_heat (T_effect m ! (i - 1)) \<noteq> 0"
  shows "\<exists>m'. preheat_loop js f m = Inr m'"
  using assms
proof (induction js arbitrary: m)
  case Nil
  then show ?case by simp
next
  case (Cons i js)
  from preheat_step_total[of m i f] Cons.prems obtain m1 where
    s: "preheat_step i f m = Inr m1" by auto
  have "T_effect m1 = T_effect m" using preheat_step_fields[OF s] by simp
  with Cons.prems have "\<forall>i\<in>set js. latent_heat (T_effect m1 ! (i - 1)) \<noteq> 0" by simp
  from Cons.IH[OF this] s show ?case by simp
qed

lemma forward_step_total:
  assumes "latent_heat (T_effect m ! i) \<noteq> 0"
    and "heat_transfer_coefficient_evaporator (T_effect m ! i) \<noteq> 0"
  shows "\<exists>m'. forward_step i m = Inr m'"
proof -
  obtain m2 where e: "evaporation i (heat_input i m) (update_feed_temperature i m) = Inr m2"
    using assms(1) by (simp add: evaporation_def Let_def)
  have t: "T_effect m2 = T_effect m"
    using evaporation_fields(3)[OF e] by simp
  have "\<exists>m4. area_calculation i (heat_input i m) (mass_and_salt_balances i m2) = Inr m4"
    using assms(2)
    by (cases "0 < delta_T_drive i (mass_and_salt_balances i m2)")
      (simp_all add: area_calculation_def Let_def t)
  then obtain m4 where
    "area_calculation i (heat_input i m) (mass_and_salt_balances i m2) = Inr m4" by blast
  with e show ?thesis by (simp add: forward_step_def Let_def)
qed

lemma forward_step_T_effect:
  assumes "forward_step i m = Inr m'"
  shows "T_effect m' = T_effect m"
proof -
  obtain m2 m4 where
    e: "evaporation i (heat_input i m) (update_feed_temperature i m) = Inr m2"
    and a: "area_calculation i (heat_input i m) (mass_and_salt_balances i m2) = Inr m4"
    and f: "m' = forward_feed_propagation i m4"
    using forward_step_stages[OF assms] by blast
  show ?thesis
    using evaporation_fields(3)[OF e] area_calculation_fields(3)[OF a] by (simp add: f)
qed

lemma forward_loop_total:
  assumes "\<forall>i\<in>set js. latent_heat (T_effect m ! i) \<noteq> 0
             \<and> heat_transfer_coefficient_evaporator (T_effect m ! i) \<noteq> 0"
  shows "\<exists>m'. forward_loop js m = Inr m'"
  using assms
proof (induction js arbitrary: m)
  case Nil
  then show ?case by simp
next
  case (Cons i js)
  from forward_step_total[of m i] Cons.prems obtain m1 where
    s: "forward_step i m = Inr m1" by auto
  have "T_effect m1 = T_effect m" by (rule forward_step_T_effect[OF s])
  with Cons.prems have "\<forall>i\<in>set js. latent_heat (T_effect m1 ! i) \<noteq> 0
             \<and> heat_transfer_coefficient_evaporator (T_effect m1 ! i) \<noteq> 0" by simp
  from Cons.IH[OF this] s show ?case by simp
qed

lemma solve_total:
  assumes n1: "1 \<le> n_effects p"
    and d: "d = (T_steam p - T_cw p - real_of_int (n_effects p) * BPE p)
                / real_of_int (n_effects p + 1)"
    and ok: "\<And>i. i < nat (n_effects p) \<Longrightarrow>
       latent_heat (T_steam p - (real i + 1) * d - BPE p) \<noteq> 0
       \<and> heat_transfer_coefficient_evaporator (T_steam p - (real i + 1) * d - BPE p) \<noteq> 0"
  shows "\<exists>m. solve p = Inr m"
proof -
  define N where "N = nat (n_effects p)"
  have N0: "0 < N" using n1 by (simp add: N_def)
  define z where "z = replicate N (0::real)"
  define m0 where "m0 =
    \<lparr> params = p, n = n_effects p, T_effect = z, M_feed_arr = z, M_brine = z,
      M_vapor = z, S_brine = z, A_effect = z, M_total_distillate = 0, M_steam = 0,
      GOR = 0, As = 0, S_feed_arr = [], T_feed_in = [], M_vapor_preheat = [] \<rparr>"
  have i0: "MEDModel_init p = Inr m0"
    using n1 by (simp add: MEDModel_init_def np_zeros_def m0_def z_def N_def)
  define m2 where "m2 = m0\<lparr>M_feed_arr := z[0 := M_feed p],
      S_feed_arr := replicate N (S_feed p), T_feed_in := z\<rparr>"
  define m3 where "m3 = temperature_loop [0..<N] d m2"
  define m4 where "m4 = m3\<lparr>T_feed_in := z[0 := T_feed p], M_vapor_preheat := z\<rparr>"
  have zne: "z \<noteq> []" using N0 by (simp add: z_def)
  have s': "solve_model m0 =
    (case preheat_loop (rev [1..<N]) (M_feed p) m4 of
       Inl e \<Rightarrow> Inl e
     | Inr m5 \<Rightarrow>
        (case forward_loop [0..<nat (n m5)]
                (m5\<lparr>M_steam := M_feed (params m5) * (12 / 100) / (514 / 100)\<rparr>) of
           Inl e \<Rightarrow> Inl e
         | Inr m7 \<Rightarrow> Inr (final_metrics m7)))"
    using zne n1 N0
    by (simp add: solve_model_def distribute_feed_water_def np_zeros_def Let_def m0_def
        m2_def m3_def m4_def N_def[symmetric] d z_def temperature_loop_fields
        cong: sum.case_cong)
  have te: "T_effect m4 ! i = T_steam p - (real i + 1) * d - BPE p" if "i < N" for i
  proof -
    have "i < length (T_effect m2)" using that by (simp add: m2_def m0_def z_def)
    from temperature_loop_nth[OF this, of "[0..<N]" d] that
    show ?thesis by (simp add: m4_def m3_def m2_def m0_def)
  qed
  have good: "latent_heat (T_effect m4 ! k) \<noteq> 0
      \<and> heat_transfer_coefficient_evaporator (T_effect m4 ! k) \<noteq> 0" if "k < N" for k
    using ok[of k] that unfolding te[OF that] by (simp add: N_def)
  have "\<forall>i\<in>set (rev [1..<N]). latent_heat (T_effect m4 ! (i - 1)) \<noteq> 0"
  proof
    fix i assume "i \<in> set (rev [1..<N])"
    then have "i - 1 < N" by auto
    from good[OF this] show "latent_heat (T_effect m4 ! (i - 1)) \<noteq> 0" by simp
  qed
  from preheat_loop_total[OF this] obtain m5 where
    p5: "preheat_loop (rev [1..<N]) (M_feed p) m4 = Inr m5" by blast
  note P = preheat_loop_fields[OF p5]
  have pm4: "params m4 = p" "n m4 = n_effects p"
    by (simp_all add: m4_def m3_def temperature_loop_fields m2_def m0_def)
  have pm5: "params m5 = p" "nat (n m5) = N" using P pm4 by (simp_all add: N_def)
  let ?m6 = "m5\<lparr>M_steam := M_feed p * (12 / 100) / (514 / 100)\<rparr>"
  have "\<forall>i\<in>set [0..<N]. latent_heat (T_effect ?m6 ! i) \<noteq> 0
             \<and> heat_transfer_coefficient_evaporator (T_effect ?m6 ! i) \<noteq> 0"
    using good P by simp
  from forward_loop_total[OF this] obtain m7 where
    "forward_loop [0..<N] ?m6 = Inr m7" by blast
  then have "solve_model m0 = Inr (final_metrics m7)"
    unfolding s' using p5 by (simp add: pm5)
  then show ?thesis using i0 by (simp add: solve_def)
qed


section \<open>The steady-state solver: when it returns\<close>

text \<open>
  The latent heat and the heat transfer coefficient are positive between 0 and 100
  degrees, and the temperatures of the ladder lie between \<open>T_cw\<close> and \<open>T_steam\<close> when
  \<open>n * BPE\<close> does not exceed \<open>T_steam - T_cw\<close>: for such parameters no division of
  \<^verbatim>\<open>solve\<close> has a zero divisor, and \<^verbatim>\<open>solve\<close> returns.
\<close>

lemma latent_heat_pos:
  assumes "0 \<le> T" and "T \<le> 100"
  shows "0 < latent_heat T"
proof -
  have a: "T ^ 3 \<le> 1000000" using power_mono[OF assms(2,1), of 3] by simp
  have b: "0 \<le> T ^ 2" by simp
  show ?thesis using a b assms unfolding latent_heat_def by linarith
qed

lemma heat_transfer_coefficient_pos:
  assumes "0 \<le> T"
  shows "0 < heat_transfer_coefficient_evaporator T"
  using assms by (simp add: heat_transfer_coefficient_evaporator_def add_pos_nonneg)

lemma ladder_range:
  fixes nn B d Ts Tc x :: real
  assumes "1 \<le> nn" and "0 \<le> B" and "nn * B \<le> Ts - Tc"
    and d: "d = (Ts - Tc - nn * B) / (nn + 1)" and "0 \<le> x" and "x + 1 \<le> nn"
  shows "Tc \<le> Ts - (x + 1) * d - B" and "Ts - (x + 1) * d - B \<le> Ts"
proof -
  have d0: "0 \<le> d" using assms(1,3) unfolding d by simp
  have e: "(nn + 1) * d = Ts - Tc - nn * B" using assms(1) unfolding d by simp
  have "(x + 1) * d \<le> nn * d" using assms(6) d0 by (rule mult_right_mono)
  moreover have "nn * d = Ts - Tc - nn * B - d" using e by (simp add: algebra_simps)
  moreover have "B \<le> nn * B" using mult_right_mono[OF assms(1,2)] by simp
  ultimately show "Tc \<le> Ts - (x + 1) * d - B" using d0 by linarith
  have "0 \<le> (x + 1) * d" using assms(5) d0 by simp
  then show "Ts - (x + 1) * d - B \<le> Ts" using assms(2) by linarith
qed

lemma solve_total_physical:
  assumes "1 \<le> n_effects p" and "0 \<le> T_cw p" and "T_steam p \<le> 100" and "0 \<le> BPE p"
    and "real_of_int (n_effects p) * BPE p \<le> T_steam p - T_cw p"
  shows "\<exists>m. solve p = Inr m"
proof (rule solve_total[OF assms(1) refl])
  fix i assume i: "i < nat (n_effects p)"
  let ?d = "(T_steam p - T_cw p - real_of_int (n_effects p) * BPE p) / real_of_int (n_effects p + 1)"
  have d: "?d = (T_steam p - T_cw p - real_of_int (n_effects p) * BPE p)
                 / (real_of_int (n_effects p) + 1)" by simp
  have n1: "1 \<le> real_of_int (n_effects p)" using assms(1) by simp
  have x: "real i + 1 \<le> real_of_int (n_effects p)" using i by linarith
  note r = ladder_range[OF n1 assms(4,5) d _ x]
  have lo: "0 \<le> T_steam p - (real i + 1) * ?d - BPE p" using r(1) assms(2) by simp
  have hi: "T_steam p - (real i + 1) * ?d - BPE p \<le> 100" using r(2) assms(3) by simp
  show "latent_heat (T_steam p - (real i + 1) * ?d - BPE p) \<noteq> 0
       \<and> heat_transfer_coefficient_evaporator (T_steam p - (real i + 1) * ?d - BPE p) \<noteq> 0"
    using latent_heat_pos[OF lo hi] heat_transfer_coefficient_pos[OF lo] by simp
qed

lemma default_solve_returns: "\<exists>m. solve default_parameters = Inr m"
  by (rule solve_total_physical) (simp_all add: default_parameters_def)

section \<open>The steady-state solver: the temperature ladder\<close>

text \<open>
  Claim C7. After every call of \<^verbatim>\<open>solve\<close> that returns, the boiling temperature of
  effect \<open>i\<close> is \<open>T_steam - (i + 1) * d - BPE\<close> with
  \<open>d = (T_steam - T_cw - n * BPE) / (n + 1)\<close>; for 8 effects, \<open>T_steam = 70\<close>,
  \<open>T_cw = 20\<close> and \<open>BPE = 0.8\<close> the top temperature that \<^verbatim>\<open>solve\<close> reports is
  \<open>2896 / 45\<close>, which is 64.36 to two decimals.
\<close>

theorem effect_temperature_ladder:
  assumes "solve p = Inr m"
  shows "(\<forall>i<nat (n_effects p).
           T_effect m ! i =
             T_steam p
             - (real i + 1) * ((T_steam p - T_cw p - real_of_int (n_effects p) * BPE p)
                               / real_of_int (n_effects p + 1))
             - BPE p)
    \<and> (n_effects p = 8 \<and> T_steam p = 70 \<and> T_cw p = 20 \<and> BPE p = 8 / 10 \<longrightarrow>
         r_T_top (results_of m) = 2896 / 45
         \<and> \<bar>r_T_top (results_of m) - 6436 / 100\<bar> < 5 / 1000)"
proof -
  note t = solve_Inr(5)[OF assms refl refl]
  have top: "r_T_top (results_of m) = 2896 / 45
      \<and> \<bar>r_T_top (results_of m) - 6436 / 100\<bar> < 5 / 1000"
    if h: "n_effects p = 8 \<and> T_steam p = 70 \<and> T_cw p = 20 \<and> BPE p = 8 / 10"
  proof -
    have e: "r_T_top (results_of m) = 2896 / 45"
      using t[of 0] h by (simp add: results_of_def)
    show ?thesis unfolding e by simp
  qed
  show ?thesis using t top by blast
qed

theorem effect_temperature_ladder_witness:
  "\<exists>m. solve default_parameters = Inr m
     \<and> T_effect m ! 0 = 70 - 1 * ((70 - 20 - 8 * (8 / 10)) / 9) - 8 / 10
     \<and> T_effect m ! 7 = 70 - 8 * ((70 - 20 - 8 * (8 / 10)) / 9) - 8 / 10
     \<and> r_T_top (results_of m) = 2896 / 45"
proof -
  obtain m where m: "solve default_parameters = Inr m"
    using default_solve_returns by blast
  from effect_temperature_ladder[OF m]
  have "T_effect m ! 0 = 70 - 1 * ((70 - 20 - 8 * (8 / 10)) / 9) - 8 / 10
     \<and> T_effect m ! 7 = 70 - 8 * ((70 - 20 - 8 * (8 / 10)) / 9) - 8 / 10
     \<and> r_T_top (results_of m) = 2896 / 45"
    by (simp add: default_parameters_def)
  with m show ?thesis by blast
qed


lemma warm_cooling_water_returns: "\<exists>m. solve warm_cooling_water = Inr m"
proof (rule solve_total[OF _ refl])
  show "1 \<le> n_effects warm_cooling_water"
    by (simp add: warm_cooling_water_def default_parameters_def)
next
  fix i assume "i < nat (n_effects warm_cooling_water)"
  then have i: "real i < 8" by (simp add: warm_cooling_water_def default_parameters_def)
  let ?T = "T_steam warm_cooling_water
       - (real i + 1) * ((T_steam warm_cooling_water - T_cw warm_cooling_water
                           - real_of_int (n_effects warm_cooling_water) * BPE warm_cooling_water)
                          / real_of_int (n_effects warm_cooling_water + 1))
       - BPE warm_cooling_water"
  have e: "?T = 692 / 10 + (real i + 1) * (7 / 45)"
    by (simp add: warm_cooling_water_def default_parameters_def algebra_simps)
  have lo: "0 \<le> ?T" unfolding e
    by (intro add_nonneg_nonneg mult_nonneg_nonneg) simp_all
  have hi: "?T \<le> 100" unfolding e using i by (simp add: field_simps)
  show "latent_heat ?T \<noteq> 0 \<and> heat_transfer_coefficient_evaporator ?T \<noteq> 0"
    using latent_heat_pos[OF lo hi] heat_transfer_coefficient_pos[OF lo] by simp
qed

text \<open>
  Claim C8, as amended. After a call of \<^verbatim>\<open>solve\<close> that returns, two neighbouring effects
  differ by \<open>d = (T_steam - T_cw - n * BPE) / (n + 1)\<close>, so that
  \<open>T_effect[i] > T_effect[i+1]\<close> for \<open>i\<close> from 0 to \<open>n - 2\<close> exactly when \<open>n * BPE\<close> is less
  than \<open>T_steam - T_cw\<close>.
\<close>

theorem temperature_ladder_decreasing:
  assumes "solve p = Inr m" and "i + 1 < nat (n_effects p)"
  shows "T_effect m ! i - T_effect m ! (i + 1) =
           (T_steam p - T_cw p - real_of_int (n_effects p) * BPE p) / real_of_int (n_effects p + 1)
     \<and> (T_effect m ! (i + 1) < T_effect m ! i
          \<longleftrightarrow> real_of_int (n_effects p) * BPE p < T_steam p - T_cw p)"
proof -
  define d where
    "d = (T_steam p - T_cw p - real_of_int (n_effects p) * BPE p) / real_of_int (n_effects p + 1)"
  note t = solve_Inr(5)[OF assms(1) refl d_def]
  have i: "i < nat (n_effects p)" using assms(2) by simp
  have a: "T_effect m ! i = T_steam p - (real i + 1) * d - BPE p"
    by (rule t[OF i])
  have b: "T_effect m ! (i + 1) = T_steam p - (real (i + 1) + 1) * d - BPE p"
    by (rule t[OF assms(2)])
  have diff: "T_effect m ! i - T_effect m ! (i + 1) = d"
    unfolding a b by (simp add: algebra_simps)
  have pos: "0 < real_of_int (n_effects p + 1)"
    using solve_Inr(1)[OF assms(1) refl refl] by simp
  have q: "(0 < x / c) = (0 < x)" if "0 < c" for x c :: real
    using that by (simp add: zero_less_divide_iff)
  have "(0 < d) = (0 < T_steam p - T_cw p - real_of_int (n_effects p) * BPE p)"
    unfolding d_def by (rule q[OF pos])
  then have "(0 < d) = (real_of_int (n_effects p) * BPE p < T_steam p - T_cw p)"
    by linarith
  moreover have "(T_effect m ! (i + 1) < T_effect m ! i) = (0 < d)"
    using diff by linarith
  ultimately show ?thesis using diff unfolding d_def by blast
qed

theorem temperature_ladder_decreasing_witness:
  "\<exists>m. solve default_parameters = Inr m \<and> 0 + 1 < nat (n_effects default_parameters)
     \<and> T_effect m ! 0 - T_effect m ! (0 + 1) = 218 / 45
     \<and> T_effect m ! (0 + 1) < T_effect m ! 0"
proof -
  obtain m where m: "solve default_parameters = Inr m"
    using default_solve_returns by blast
  have i: "0 + 1 < nat (n_effects default_parameters)"
    by (simp add: default_parameters_def)
  from temperature_ladder_decreasing[OF m i]
  have "T_effect m ! 0 - T_effect m ! (0 + 1) = 218 / 45
     \<and> T_effect m ! (0 + 1) < T_effect m ! 0"
    by (simp add: default_parameters_def)
  with m i show ?thesis by blast
qed

text \<open>
  Claim C8 as stated fails for the default plant with cooling water at 65 degrees: the
  call returns, and the temperatures of the 8 effects rise, from 69.3555... in effect 0
  to 69.5111... in effect 1.
\<close>

theorem temperature_ladder_counterexample:
  "\<exists>m. solve warm_cooling_water = Inr m \<and> n_effects warm_cooling_water = 8
     \<and> T_effect m ! 0 = 3121 / 45 \<and> T_effect m ! 1 = 3128 / 45
     \<and> \<not> T_effect m ! 0 > T_effect m ! 1"
proof -
  obtain m where m: "solve warm_cooling_water = Inr m"
    using warm_cooling_water_returns by blast
  note t = solve_Inr(5)[OF m refl refl]
  have a: "T_effect m ! 0 = 3121 / 45"
    using t[of 0] by (simp add: warm_cooling_water_def default_parameters_def)
  have b: "T_effect m ! 1 = 3128 / 45"
    using t[of 1] by (simp add: warm_cooling_water_def default_parameters_def)
  have "n_effects warm_cooling_water = 8"
    by (simp add: warm_cooling_water_def default_parameters_def)
  with m a b show ?thesis by simp
qed

section \<open>The steady-state solver: mass and salt balances\<close>




section \<open>The steady-state solver: the preheating recorded in the object\<close>

lemma solve_preheat:
  assumes "solve p = Inr m"
    and N: "N = nat (n_effects p)"
  obtains m4 m5 where
    "params m4 = p" "T_effect m4 = T_effect m"
    "T_feed_in m4 = (replicate N 0)[0 := T_feed p]"
    "M_vapor_preheat m4 = replicate N 0"
    "preheat_loop (rev [1..<N]) (M_feed p) m4 = Inr m5"
    "M_vapor_preheat m = M_vapor_preheat m5" "T_feed_in m ! 0 = T_feed_in m5 ! 0"
proof -
  obtain m4 m5 m7 where n1: "1 \<le> n_effects p"
    and p4: "params m4 = p" "n m4 = n_effects p" and z4: "arrays_sized N m4"
    and t4: "T_feed_in m4 = (replicate N 0)[0 := T_feed p]"
      "M_vapor_preheat m4 = replicate N 0"
    and p5: "preheat_loop (rev [1..<N]) (M_feed p) m4 = Inr m5"
    and f7: "forward_loop [0..<N] (m5\<lparr>M_steam := M_feed p * (12 / 100) / (514 / 100)\<rparr>) = Inr m7"
    and fm: "m = final_metrics m7"
    using solve_stages[OF assms refl] by metis
  let ?m6 = "m5\<lparr>M_steam := M_feed p * (12 / 100) / (514 / 100)\<rparr>"
  note P = preheat_loop_fields[OF p5]
  have z6: "arrays_sized N ?m6" using z4 P by (simp add: arrays_sized_def)
  have n6: "n ?m6 = int N" using P p4 n1 N by simp
  have "\<forall>j<0. effect_balance ?m6 j" by simp
  note I = forward_loop_invariant[OF f7 z6 n6 this]
  have a: "T_effect m4 = T_effect m" using I P by (simp add: fm final_metrics_fields)
  have b: "M_vapor_preheat m = M_vapor_preheat m5"
    using I by (simp add: fm final_metrics_fields)
  have c: "T_feed_in m ! 0 = T_feed_in m5 ! 0"
    using I by (simp add: fm final_metrics_fields)
  show ?thesis by (rule that[OF p4(1) a t4 p5 b c])
qed

lemma preheat_loop_idle:
  assumes "\<forall>i\<in>set js. \<not> T_effect m ! i - TTD_preheater (params m) > T_feed_in m ! 0"
  shows "preheat_loop js f m = Inr m"
  using assms by (induction js) (simp_all add: preheat_step_def Let_def)

lemma preheat_step_zero_feed:
  assumes "preheat_step i 0 m = Inr m'"
  shows "set (M_vapor_preheat m') \<subseteq> insert 0 (set (M_vapor_preheat m))"
  using assms set_update_subset_insert[of "M_vapor_preheat m" "i - 1" 0]
  by (auto simp: preheat_step_def Let_def split: if_splits)

lemma preheat_loop_zero_feed:
  assumes "preheat_loop js 0 m = Inr m'" and "set (M_vapor_preheat m) \<subseteq> {0}"
  shows "set (M_vapor_preheat m') \<subseteq> {0}"
  using assms
proof (induction js arbitrary: m)
  case Nil
  then show ?case by simp
next
  case (Cons i js)
  from Cons.prems(1) obtain m1 where s: "preheat_step i 0 m = Inr m1"
    and l: "preheat_loop js 0 m1 = Inr m'"
    by (auto split: sum.splits)
  have "set (M_vapor_preheat m1) \<subseteq> {0}"
    using preheat_step_zero_feed[OF s] Cons.prems(2) by auto
  from Cons.IH[OF l this] show ?case .
qed

lemma heat_input_0: "heat_input 0 m = M_steam m * latent_heat (T_steam (params m))"
  by (simp add: heat_input_def)

lemma heat_input_Suc:
  "heat_input (Suc i) m =
     max 0 (M_vapor m ! i - M_vapor_preheat m ! i) * latent_heat (T_effect m ! i)"
  by (simp add: heat_input_def Let_def)

lemma sensible_heat_no_feed:
  assumes "M_feed_arr m ! i = 0"
  shows "sensible_heat i m = 0"
  using assms by (simp add: sensible_heat_def Let_def)

lemma sensible_heat_no_rise:
  assumes "T_effect m ! i = T_feed_in m ! i"
  shows "sensible_heat i m = 0"
  using assms by (simp add: sensible_heat_def Let_def)

lemma effect_balance_vapor:
  assumes "effect_balance m i"
  shows "M_vapor m ! i =
       max 0 ((heat_input i m - sensible_heat i m) / latent_heat (T_effect m ! i))"
    and "M_brine m ! i = M_feed_arr m ! i - M_vapor m ! i"
    and "latent_heat (T_effect m ! i) \<noteq> 0"
    and "0 < i \<Longrightarrow> T_feed_in m ! i = T_effect m ! (i - 1)"
    and "int i < n m - 1 \<Longrightarrow> M_feed_arr m ! (i + 1) = M_brine m ! i"
    and "A_effect m ! i =
       (if delta_T_drive i m > 0
        then heat_input i m /
               (heat_transfer_coefficient_evaporator (T_effect m ! i) * delta_T_drive i m)
        else 0)"
  using assms unfolding effect_balance_def by blast+

section \<open>The steady-state solver: a plant without feed\<close>

lemma zero_feed_no_vapor:
  assumes s: "solve p = Inr m" and z: "M_feed p = 0"
  shows "M_vapor m = replicate (nat (n_effects p)) 0"
proof -
  define N where "N = nat (n_effects p)"
  note S = solve_Inr[OF s N_def refl]
  obtain m4 m5 where v4: "M_vapor_preheat m4 = replicate N 0"
    and p5: "preheat_loop (rev [1..<N]) (M_feed p) m4 = Inr m5"
    and v: "M_vapor_preheat m = M_vapor_preheat m5"
    using solve_preheat[OF s N_def] by metis
  have sub: "set (M_vapor_preheat m) \<subseteq> {0}"
    unfolding v by (rule preheat_loop_zero_feed[OF p5[unfolded z]]) (auto simp: v4)
  have len: "length (M_vapor_preheat m) = N" "length (M_vapor m) = N"
    using S(4) by (simp_all add: arrays_sized_def)
  have pre: "M_vapor_preheat m ! k = 0" if "k < N" for k
  proof -
    have "M_vapor_preheat m ! k \<in> set (M_vapor_preheat m)"
      using that len(1) by (intro nth_mem) simp
    with sub show ?thesis by blast
  qed
  have ms: "M_steam m = 0" using S(6) z by simp
  have P: "M_feed_arr m ! i = 0 \<and> M_vapor m ! i = 0" if "i < N" for i
    using that
  proof (induction i)
    case 0
    have f: "M_feed_arr m ! 0 = 0" using S(8) z by simp
    have "M_vapor m ! 0 = 0"
      unfolding effect_balance_vapor(1)[OF S(7)[OF 0]] heat_input_0 ms
        sensible_heat_no_feed[OF f] by simp
    with f show ?case by simp
  next
    case (Suc i)
    then have i: "i < N" by simp
    from Suc.IH[OF i] have fi: "M_feed_arr m ! i = 0" and vi: "M_vapor m ! i = 0" by simp_all
    have bi: "M_brine m ! i = 0"
      unfolding effect_balance_vapor(2)[OF S(7)[OF i]] fi vi by simp
    have "int i < n m - 1" using Suc.prems S(3) by (simp add: N_def)
    from effect_balance_vapor(5)[OF S(7)[OF i] this] bi
    have f: "M_feed_arr m ! Suc i = 0" by simp
    have "M_vapor m ! Suc i = 0"
      unfolding effect_balance_vapor(1)[OF S(7)[OF Suc.prems]] heat_input_Suc vi pre[OF i]
        sensible_heat_no_feed[OF f] by simp
    with f show ?case by simp
  qed
  show ?thesis
    unfolding N_def[symmetric]
    by (rule nth_equalityI) (use len P in simp_all)
qed

lemma no_feed_returns: "\<exists>m. solve no_feed = Inr m"
  by (rule solve_total_physical) (simp_all add: no_feed_def default_parameters_def)

text \<open>
  Claim C9. \<^verbatim>\<open>solve\<close> is said to raise no exception and to let every degenerate
  condition end in a zero contribution, the ratios being reported as 0 instead of being
  divided by zero. For the default plant without feed water (\<open>M_feed = 0\<close>) the call
  returns, steam and distillate are 0, and \<^verbatim>\<open>GOR\<close> and \<^verbatim>\<open>As\<close> are reported as 0 by
  their guards; the water recovery ratio has no guard and is the quotient of the
  distillate 0 by the feed flow 0, which is \<^verbatim>\<open>nan\<close> in the program and \<open>None\<close> here.
\<close>

theorem zero_feed_recovery_ratio_undefined:
  "\<exists>m. solve no_feed = Inr m \<and> M_feed (params m) = 0
     \<and> r_M_steam (results_of m) = 0 \<and> r_M_total_distillate (results_of m) = 0
     \<and> r_GOR (results_of m) = 0 \<and> r_As (results_of m) = 0
     \<and> r_WRR (results_of m) = None"
proof -
  obtain m where m: "solve no_feed = Inr m" using no_feed_returns by blast
  note S = solve_Inr[OF m refl refl]
  have z: "M_feed no_feed = 0" by (simp add: no_feed_def)
  have p: "M_feed (params m) = 0" using S(2) z by simp
  have st: "M_steam m = 0" using S(6) z by simp
  have d: "M_total_distillate m = 0"
    unfolding S(10) zero_feed_no_vapor[OF m z] by (simp add: sum_list_replicate)
  have g: "GOR m = 0" unfolding S(11) st by simp
  have a: "As m = 0" unfolding S(12) d by simp
  show ?thesis
    using m p st d g a by (intro exI[of _ m]) (simp add: results_of_def)
qed

end
